theory Spec2Isabelle
  imports Complex_Main
begin

section \<open>The remote-control client (DYBClient) of Dock Your Boat\<close>

text \<open>
  A shallow embedding of the class \<open>DYBClient\<close> (src/unnamed/part_001) and of the types
  it uses (src/src/types.ts). Each method of the class is a function on a record of the
  object's fields; what a method does to the outside world (socket calls, timers,
  emitted events, console warnings and errors) is appended to the field \<open>trace\<close>.
  \<open>console.log\<close> output is not modelled.
\<close>

subsection \<open>JavaScript values\<close>

text \<open>
  A JavaScript \<open>number\<close>: a finite value, the two infinities, or NaN. A finite double is
  modelled by the rational it denotes (negative zero is identified with zero). The
  operations the client applies to numbers (\<open>Math.min\<close>, \<open>Math.max\<close>, \<open>Math.round\<close>,
  \<open>Number.isInteger\<close>, comparison) are exact on doubles, so no rounding is involved.
\<close>

datatype number = Fin rat | PosInf | NegInf | NaN

text \<open>The comparison \<open>a < b\<close> of two numbers; false whenever NaN is involved.\<close>

fun num_less :: "number \<Rightarrow> number \<Rightarrow> bool" where
  "num_less NaN b = False"
| "num_less a NaN = False"
| "num_less (Fin x) (Fin y) = (x < y)"
| "num_less NegInf b = (b \<noteq> NegInf)"
| "num_less a PosInf = (a \<noteq> PosInf)"
| "num_less a b = False"

definition num_le :: "number \<Rightarrow> number \<Rightarrow> bool" where
  "num_le a b = (a \<noteq> NaN \<and> b \<noteq> NaN \<and> \<not> num_less b a)"

text \<open>\<open>Math.min(a, b)\<close> and \<open>Math.max(a, b)\<close>: NaN if either argument is NaN.\<close>

definition math_min :: "number \<Rightarrow> number \<Rightarrow> number" where
  "math_min a b = (if a = NaN \<or> b = NaN then NaN else if num_less b a then b else a)"

definition math_max :: "number \<Rightarrow> number \<Rightarrow> number" where
  "math_max a b = (if a = NaN \<or> b = NaN then NaN else if num_less a b then b else a)"

text \<open>\<open>Math.round(x)\<close>: the nearest integer, a tie going towards plus infinity.\<close>

fun math_round :: "number \<Rightarrow> number" where
  "math_round (Fin x) = Fin (of_int \<lfloor>x + 1 / 2\<rfloor>)"
| "math_round n = n"

text \<open>\<open>Number.isInteger(x)\<close>.\<close>

fun isInteger :: "number \<Rightarrow> bool" where
  "isInteger (Fin x) = (of_int \<lfloor>x\<rfloor> = x)"
| "isInteger n = False"

text \<open>
  A JavaScript value. An object is the list of its own enumerable properties in
  insertion order, with distinct keys. Symbols and functions carry no data the client
  reads.
\<close>

datatype jsval =
    JUndefined
  | JNull
  | JBool bool
  | JNum number
  | JBigInt int
  | JStr string
  | JSymbol
  | JFunction
  | JArr "jsval list"
  | JObj "(string \<times> jsval) list"

datatype jstype = TUndefined | TObject | TBoolean | TNumber | TBigint | TString | TSymbol | TFunction

text \<open>The operator \<open>typeof\<close>; \<open>typeof null\<close> is \<open>'object'\<close>, as is that of an array.\<close>

fun typeof :: "jsval \<Rightarrow> jstype" where
  "typeof JUndefined = TUndefined"
| "typeof JNull = TObject"
| "typeof (JBool b) = TBoolean"
| "typeof (JNum n) = TNumber"
| "typeof (JBigInt i) = TBigint"
| "typeof (JStr s) = TString"
| "typeof JSymbol = TSymbol"
| "typeof JFunction = TFunction"
| "typeof (JArr xs) = TObject"
| "typeof (JObj ps) = TObject"

text \<open>Truthiness (the abstract operation \<open>ToBoolean\<close>).\<close>

fun truthy :: "jsval \<Rightarrow> bool" where
  "truthy JUndefined = False"
| "truthy JNull = False"
| "truthy (JBool b) = b"
| "truthy (JNum n) = (n \<noteq> Fin 0 \<and> n \<noteq> NaN)"
| "truthy (JBigInt i) = (i \<noteq> 0)"
| "truthy (JStr s) = (s \<noteq> [])"
| "truthy v = True"

datatype exn = TypeError | SyntaxError

text \<open>
  Property access \<open>v.k\<close> for the keys the client reads (\<open>PlayerMessenger\<close>, \<open>AP_display\<close>,
  \<open>AP_active\<close>, \<open>t\<close>, \<open>v\<close>, \<open>Props\<close>, \<open>Msg\<close>, \<open>Type\<close>, \<open>Noti\<close>): a TypeError on \<open>null\<close> and \<open>undefined\<close>, the
  property's value on an object that has it, and \<open>undefined\<close> otherwise (none of these
  keys is a member of a prototype, an index or \<open>length\<close>).
\<close>

fun getProp :: "jsval \<Rightarrow> string \<Rightarrow> exn + jsval" where
  "getProp JUndefined k = Inl TypeError"
| "getProp JNull k = Inl TypeError"
| "getProp (JObj ps) k = (case map_of ps k of None \<Rightarrow> Inr JUndefined | Some v \<Rightarrow> Inr v)"
| "getProp v k = Inr JUndefined"

subsection \<open>Conversion to text\<close>

text \<open>
  \<open>Number::toString\<close> in plain decimal notation: the sign, the digits of the integer
  part and, for a non-integer, a point and the digits of the fraction (at most 20). This
  is what JavaScript prints for a double whose shortest decimal form is exact and whose
  magnitude lies between \<open>1e-6\<close> and \<open>1e21\<close>.
\<close>

fun nat_digits :: "nat \<Rightarrow> string" where
  "nat_digits n =
     (if n < 10 then [''0123456789'' ! n]
      else nat_digits (n div 10) @ [''0123456789'' ! (n mod 10)])"

fun frac_digits :: "nat \<Rightarrow> rat \<Rightarrow> string" where
  "frac_digits 0 r = []"
| "frac_digits (Suc k) r =
     (if r = 0 then []
      else (let d = nat \<lfloor>r * 10\<rfloor>
            in (''0123456789'' ! d) # frac_digits k (r * 10 - of_nat d)))"

definition rat_toString :: "rat \<Rightarrow> string" where
  "rat_toString x =
     (let a = \<bar>x\<bar>; i = nat \<lfloor>a\<rfloor>; f = a - of_nat i
      in (if x < 0 then ''-'' else []) @ nat_digits i @
         (if f = 0 then [] else ''.'' @ frac_digits 20 f))"

text \<open>\<open>String(n)\<close>, as a template literal applies it to a number.\<close>

fun number_toString :: "number \<Rightarrow> string" where
  "number_toString (Fin x) = rat_toString x"
| "number_toString PosInf = ''Infinity''"
| "number_toString NegInf = ''-Infinity''"
| "number_toString NaN = ''NaN''"

text \<open>
  \<open>QuoteJSONString\<close>: the text between double quotes, with the quote, the backslash and
  the control characters escaped.
\<close>

definition hex_digit :: "nat \<Rightarrow> char" where
  "hex_digit n = ''0123456789abcdef'' ! n"

definition json_escape :: "char \<Rightarrow> string" where
  "json_escape c =
     (if c = CHR 0x22 then [CHR 0x5C, CHR 0x22]
      else if c = CHR 0x5C then [CHR 0x5C, CHR 0x5C]
      else if c = CHR 0x08 then [CHR 0x5C, CHR ''b'']
      else if c = CHR 0x09 then [CHR 0x5C, CHR ''t'']
      else if c = CHR 0x0A then [CHR 0x5C, CHR ''n'']
      else if c = CHR 0x0C then [CHR 0x5C, CHR ''f'']
      else if c = CHR 0x0D then [CHR 0x5C, CHR ''r'']
      else if (of_char c :: nat) < 32
        then [CHR 0x5C, CHR ''u'', CHR ''0'', CHR ''0'',
              hex_digit (of_char c div 16), hex_digit (of_char c mod 16)]
      else [c])"

definition json_quote :: "string \<Rightarrow> string" where
  "json_quote s = [CHR 0x22] @ concat (map json_escape s) @ [CHR 0x22]"

fun join :: "string \<Rightarrow> string list \<Rightarrow> string" where
  "join sep [] = []"
| "join sep [s] = s"
| "join sep (s # ss) = s @ sep @ join sep ss"

text \<open>
  \<open>JSON.stringify(v)\<close>: \<open>Inl TypeError\<close> when it throws (a BigInt), \<open>Inr None\<close> when it
  yields \<open>undefined\<close> (for \<open>undefined\<close>, a symbol or a function; such a property is left
  out of an object and printed as \<open>null\<close> in an array), and the text otherwise. A number
  that is not finite is printed as \<open>null\<close>.
\<close>

fun stringify :: "jsval \<Rightarrow> exn + string option"
  and stringify_elems :: "jsval list \<Rightarrow> exn + string list"
  and stringify_props :: "(string \<times> jsval) list \<Rightarrow> exn + string list"
where
  "stringify JUndefined = Inr None"
| "stringify JSymbol = Inr None"
| "stringify JFunction = Inr None"
| "stringify JNull = Inr (Some ''null'')"
| "stringify (JBool b) = Inr (Some (if b then ''true'' else ''false''))"
| "stringify (JNum (Fin x)) = Inr (Some (rat_toString x))"
| "stringify (JNum PosInf) = Inr (Some ''null'')"
| "stringify (JNum NegInf) = Inr (Some ''null'')"
| "stringify (JNum NaN) = Inr (Some ''null'')"
| "stringify (JBigInt i) = Inl TypeError"
| "stringify (JStr s) = Inr (Some (json_quote s))"
| "stringify (JArr xs) =
     (case stringify_elems xs of
        Inl e \<Rightarrow> Inl e
      | Inr ss \<Rightarrow> Inr (Some (''['' @ join '','' ss @ '']'')))"
| "stringify (JObj ps) =
     (case stringify_props ps of
        Inl e \<Rightarrow> Inl e
      | Inr ss \<Rightarrow> Inr (Some (''{'' @ join '','' ss @ ''}'')))"
| "stringify_elems [] = Inr []"
| "stringify_elems (x # xs) =
     (case stringify x of
        Inl e \<Rightarrow> Inl e
      | Inr r \<Rightarrow>
          (case stringify_elems xs of
             Inl e \<Rightarrow> Inl e
           | Inr ss \<Rightarrow> Inr ((case r of None \<Rightarrow> ''null'' | Some s \<Rightarrow> s) # ss)))"
| "stringify_props [] = Inr []"
| "stringify_props (p # ps) =
     (case stringify (snd p) of
        Inl e \<Rightarrow> Inl e
      | Inr r \<Rightarrow>
          (case stringify_props ps of
             Inl e \<Rightarrow> Inl e
           | Inr ss \<Rightarrow>
               Inr (case r of None \<Rightarrow> ss | Some s \<Rightarrow> (json_quote (fst p) @ '':'' @ s) # ss)))"

subsection \<open>The client object\<close>

datatype ConnectionState = Disconnected | Connecting | Connected | Error

text \<open>The events of \<open>DYBEvents\<close>, each with the argument handed to its listeners.\<close>

datatype event =
    EvConnected
  | EvDisconnected
  | EvError string
  | EvMessage jsval
  | EvBoatProperties jsval
  | EvGameNotification jsval
  | EvCompassDisplay jsval

text \<open>
  What the client does to its environment, in the order it does it: calls on the socket
  (\<open>connect(port, host)\<close> on a new socket, \<open>write\<close>, \<open>destroy\<close>), \<open>setTimeout\<close> with its
  delay, \<open>clearTimeout\<close>, \<open>emit\<close>, \<open>console.warn\<close> and \<open>console.error\<close> with their fixed
  first argument. Listeners are outside the class: \<open>emit\<close> only records the event.
\<close>

datatype effect =
    SocketConnect number string
  | SocketWrite string
  | SocketDestroy
  | SetTimeout number
  | ClearTimeout
  | Emit event
  | ConsoleWarn string
  | ConsoleError string

datatype socket = Socket

datatype timeout = Timeout

record options =
  host :: string
  port :: number
  autoReconnect :: bool
  reconnectDelay :: number
  groupId :: number

record client =
  socket :: "socket option"
  buffer :: string
  state :: ConnectionState
  reconnectTimer :: "timeout option"
  options :: options
  trace :: "effect list"

text \<open>
  The constructor. \<open>None\<close> is an option left out of \<open>DYBClientOptions\<close>; the operator
  \<open>??\<close> then supplies the default.
\<close>

definition nullish :: "'a option \<Rightarrow> 'a \<Rightarrow> 'a" where
  "nullish x d = (case x of None \<Rightarrow> d | Some v \<Rightarrow> v)"

definition new_client ::
  "string \<Rightarrow> number \<Rightarrow> bool option \<Rightarrow> number option \<Rightarrow> number option \<Rightarrow> client" where
  "new_client h p ar rd gid =
     \<lparr> socket = None, buffer = [], state = Disconnected, reconnectTimer = None,
       options = \<lparr> host = h, port = p, autoReconnect = nullish ar True,
                   reconnectDelay = nullish rd (Fin 5000), groupId = nullish gid (Fin 1) \<rparr>,
       trace = [] \<rparr>"

definition effect :: "effect \<Rightarrow> client \<Rightarrow> client" where
  "effect e c = c\<lparr>trace := trace c @ [e]\<rparr>"

definition emit :: "event \<Rightarrow> client \<Rightarrow> client" where
  "emit ev c = effect (Emit ev) c"

subsection \<open>Connection lifecycle\<close>

definition connect :: "client \<Rightarrow> client" where
  "connect c =
     (if state c = Connected \<or> state c = Connecting
      then effect (ConsoleWarn ''Already connected or connecting'') c
      else effect (SocketConnect (port (options c)) (host (options c)))
             (c\<lparr>state := Connecting, socket := Some Socket\<rparr>))"

text \<open>The four handlers \<open>connect\<close> registers on the socket.\<close>

definition on_connect :: "client \<Rightarrow> client" where
  "on_connect c = emit EvConnected (c\<lparr>state := Connected\<rparr>)"

definition on_error :: "string \<Rightarrow> client \<Rightarrow> client" where
  "on_error msg c = emit (EvError msg) (effect (ConsoleError ''Socket error:'') (c\<lparr>state := Error\<rparr>))"

definition scheduleReconnect :: "client \<Rightarrow> client" where
  "scheduleReconnect c =
     (if reconnectTimer c \<noteq> None then c
      else effect (SetTimeout (reconnectDelay (options c))) (c\<lparr>reconnectTimer := Some Timeout\<rparr>))"

definition on_close :: "client \<Rightarrow> client" where
  "on_close c =
     (let wasConnected = (state c = Connected);
          c1 = emit EvDisconnected (c\<lparr>state := Disconnected\<rparr>)
      in if autoReconnect (options c1) \<and> wasConnected then scheduleReconnect c1 else c1)"

text \<open>The callback \<open>scheduleReconnect\<close> hands to \<open>setTimeout\<close>.\<close>

definition on_reconnect_timeout :: "client \<Rightarrow> client" where
  "on_reconnect_timeout c = connect (c\<lparr>reconnectTimer := None\<rparr>)"

definition disconnect :: "client \<Rightarrow> client" where
  "disconnect c =
     (let c1 = (if reconnectTimer c \<noteq> None
                then (effect ClearTimeout c)\<lparr>reconnectTimer := None\<rparr> else c);
          c2 = (if socket c1 \<noteq> None
                then (effect SocketDestroy c1)\<lparr>socket := None\<rparr> else c1)
      in c2\<lparr>state := Disconnected\<rparr>)"

definition getState :: "client \<Rightarrow> ConnectionState" where
  "getState c = state c"

definition isConnected :: "client \<Rightarrow> bool" where
  "isConnected c = (state c = Connected)"

subsection \<open>Sending\<close>

definition Number_isInteger :: "jsval \<Rightarrow> bool" where
  "Number_isInteger v = (case v of JNum n \<Rightarrow> isInteger n | _ \<Rightarrow> False)"

text \<open>The type code is one of the strings of \<open>BPropType\<close>.\<close>

definition getTypeCode :: "jsval \<Rightarrow> string" where
  "getTypeCode v =
     (if typeof v = TNumber then (if Number_isInteger v then ''I'' else ''F'')
      else if typeof v = TBoolean then ''B''
      else if typeof v = TString then ''S''
      else if typeof v = TObject then ''J''
      else ''S'')"

definition clamp :: "number \<Rightarrow> number \<Rightarrow> number \<Rightarrow> number" where
  "clamp v lo hi = math_max lo (math_min hi v)"

text \<open>
  \<open>sendMessage\<close>: the frame is the group id, the JSON text and one NUL character. The
  \<open>try\<close> block catches what \<open>JSON.stringify\<close> throws.
\<close>

definition sendMessage :: "jsval \<Rightarrow> client \<Rightarrow> client" where
  "sendMessage message c =
     (if \<not> isConnected c \<or> socket c = None
      then effect (ConsoleWarn ''Cannot send message: not connected'') c
      else (case stringify message of
              Inl e \<Rightarrow> effect (ConsoleError ''Error sending message:'') c
            | Inr json \<Rightarrow>
                effect (SocketWrite (number_toString (groupId (options c)) @
                          (case json of None \<Rightarrow> ''undefined'' | Some j \<Rightarrow> j) @ [CHR 0x00])) c))"

definition sendControl :: "string \<Rightarrow> jsval \<Rightarrow> client \<Rightarrow> client" where
  "sendControl k v c =
     (let type = getTypeCode v;
          message = JObj [(k, JObj [(''t'', JStr type), (''v'', v)])]
      in sendMessage message c)"

definition sendRudder :: "number \<Rightarrow> client \<Rightarrow> client" where
  "sendRudder v c = sendControl ''BoatRuder'' (JNum (clamp v (Fin (- 1)) (Fin 1))) c"

text \<open>The engine index defaults to 0 when the argument is left out (\<open>None\<close>).\<close>

definition sendThrottle :: "number \<Rightarrow> number option \<Rightarrow> client \<Rightarrow> client" where
  "sendThrottle v engine c =
     (let k = ''BoatThrottle'' @ number_toString (nullish engine (Fin 0))
      in sendControl k (JNum (clamp v (Fin (- 1)) (Fin 1))) c)"

definition sendEngineState :: "bool \<Rightarrow> client \<Rightarrow> client" where
  "sendEngineState on c = sendControl ''BoatEngineOn'' (JBool on) c"

definition sendBowThruster :: "number \<Rightarrow> client \<Rightarrow> client" where
  "sendBowThruster v c =
     sendControl ''BowThruster'' (JNum (math_max (Fin (- 1)) (math_min (Fin 1) (math_round v)))) c"

definition sendAutopilot :: "bool \<Rightarrow> client \<Rightarrow> client" where
  "sendAutopilot active c = sendControl ''AP_active'' (JBool active) c"

definition sendHeadingAdjust :: "number \<Rightarrow> client \<Rightarrow> client" where
  "sendHeadingAdjust degrees c = sendControl ''AP_set'' (JNum degrees) c"

definition sendSailControl :: "string \<Rightarrow> number \<Rightarrow> client \<Rightarrow> client" where
  "sendSailControl sail v c = sendControl (''Sail.'' @ sail) (JNum (clamp v (Fin 0) (Fin 1))) c"

subsection \<open>Receiving\<close>

text \<open>
  \<open>String(v)\<close>, which a template literal applies to an interpolated value, throws a
  TypeError for a symbol, for an object whose own \<open>toString\<close> property is not callable
  (and whose \<open>valueOf\<close>, own or inherited, yields no primitive), and for an array with such
  an element (\<open>Array.prototype.join\<close> converts every element but \<open>null\<close> and
  \<open>undefined\<close>). A function stored as \<open>toString\<close> or \<open>valueOf\<close> is taken to return a
  primitive.
\<close>

fun toString_throws :: "jsval \<Rightarrow> bool"
  and toString_throws_elems :: "jsval list \<Rightarrow> bool"
where
  "toString_throws JSymbol = True"
| "toString_throws (JObj ps) =
     (case map_of ps ''toString'' of
        None \<Rightarrow> False
      | Some f \<Rightarrow>
          f \<noteq> JFunction \<and>
          (case map_of ps ''valueOf'' of None \<Rightarrow> True | Some g \<Rightarrow> g \<noteq> JFunction))"
| "toString_throws (JArr xs) = toString_throws_elems xs"
| "toString_throws JUndefined = False"
| "toString_throws JNull = False"
| "toString_throws (JBool b) = False"
| "toString_throws (JNum n) = False"
| "toString_throws (JBigInt i) = False"
| "toString_throws (JStr s) = False"
| "toString_throws JFunction = False"
| "toString_throws_elems [] = False"
| "toString_throws_elems (x # xs) = (toString_throws x \<or> toString_throws_elems xs)"

text \<open>The test \<open>x.t === tag\<close> on a truthy envelope \<open>x\<close>.\<close>

definition tag_is :: "jsval \<Rightarrow> string \<Rightarrow> bool" where
  "tag_is x tag = (getProp x ''t'' = Inr (JStr tag))"

text \<open>
  A block of statements ends normally (\<open>None\<close>) or by throwing (\<open>Some e\<close>); either way
  the client is as the block left it.

  The first \<open>if\<close> statement of \<open>parseSpecialMessages\<close> (key \<open>PlayerMessenger\<close>). Reading
  a property of \<open>messenger\<close> throws when the envelope's \<open>v\<close> is \<open>null\<close> or missing; the
  template literal logged before the notification is emitted converts \<open>Msg.Type\<close> and
  \<open>Msg.Noti\<close> to strings.
\<close>

definition parsePlayerMessenger :: "jsval \<Rightarrow> client \<Rightarrow> exn option \<times> client" where
  "parsePlayerMessenger message c =
     (case getProp message ''PlayerMessenger'' of
        Inl e \<Rightarrow> (Some e, c)
      | Inr pm \<Rightarrow>
          if truthy pm \<and> tag_is pm ''J'' then
            (case getProp pm ''v'' of
               Inl e \<Rightarrow> (Some e, c)
             | Inr messenger \<Rightarrow>
                 (case getProp messenger ''Props'' of
                    Inl e \<Rightarrow> (Some e, c)
                  | Inr props \<Rightarrow>
                      (let c1 = (if truthy props then emit (EvBoatProperties props) c else c)
                       in (case getProp messenger ''Msg'' of
                             Inl e \<Rightarrow> (Some e, c1)
                           | Inr msg \<Rightarrow>
                               if truthy msg then
                                 (case getProp msg ''Type'' of
                                    Inl e \<Rightarrow> (Some e, c1)
                                  | Inr ty \<Rightarrow>
                                      (case getProp msg ''Noti'' of
                                         Inl e \<Rightarrow> (Some e, c1)
                                       | Inr noti \<Rightarrow>
                                           if toString_throws ty \<or> toString_throws noti
                                           then (Some TypeError, c1)
                                           else (None, emit (EvGameNotification msg) c1)))
                               else (None, c1)))))
          else (None, c))"

text \<open>
  The second \<open>if\<close> statement (key \<open>AP_display\<close>, tag \<open>'S'\<close>): the display value is logged
  through a template literal, then emitted.
\<close>

definition parseAutopilotDisplay :: "jsval \<Rightarrow> client \<Rightarrow> exn option \<times> client" where
  "parseAutopilotDisplay message c =
     (case getProp message ''AP_display'' of
        Inl e \<Rightarrow> (Some e, c)
      | Inr ap \<Rightarrow>
          if truthy ap \<and> tag_is ap ''S'' then
            (case getProp ap ''v'' of
               Inl e \<Rightarrow> (Some e, c)
             | Inr display \<Rightarrow>
                 if toString_throws display then (Some TypeError, c)
                 else (None, emit (EvCompassDisplay display) c))
          else (None, c))"

text \<open>
  \<open>parseSpecialMessages\<close>. Its third \<open>if\<close> statement (key \<open>AP_active\<close>, tag \<open>'B'\<close>) only
  writes to \<open>console.log\<close> and cannot throw once the first two have run.
\<close>

definition parseSpecialMessages :: "jsval \<Rightarrow> client \<Rightarrow> exn option \<times> client" where
  "parseSpecialMessages message c =
     (case parsePlayerMessenger message c of
        (Some e, c1) \<Rightarrow> (Some e, c1)
      | (None, c1) \<Rightarrow> parseAutopilotDisplay message c1)"

text \<open>
  \<open>processMessage\<close>. \<open>JSON.parse\<close> belongs to the runtime: the function \<open>parse\<close> gives its
  result on a text, \<open>None\<close> when it throws a SyntaxError. The \<open>catch\<close> clause logs whatever
  was thrown inside the \<open>try\<close> block and returns.
\<close>

definition processMessage :: "(string \<Rightarrow> jsval option) \<Rightarrow> string \<Rightarrow> client \<Rightarrow> client" where
  "processMessage parse line c =
     (if length line < 2 then c
      else (let jsonStr = drop 1 line
            in (case parse jsonStr of
                  None \<Rightarrow> effect (ConsoleError ''Error parsing message:'') c
                | Some message \<Rightarrow>
                    (case parseSpecialMessages message (emit (EvMessage message) c) of
                       (Some e, c1) \<Rightarrow> effect (ConsoleError ''Error parsing message:'') c1
                     | (None, c1) \<Rightarrow> c1))))"

text \<open>
  The \<open>while\<close> loop of \<open>handleData\<close>: as long as the buffer holds a newline, the text
  before the first one is cut off as a line and, unless empty, processed.
\<close>

function handleData_loop :: "(string \<Rightarrow> jsval option) \<Rightarrow> client \<Rightarrow> client" where
  "handleData_loop parse c =
     (if CHR 0x0A \<in> set (buffer c) then
        (let lineEnd = length (takeWhile (\<lambda>x. x \<noteq> CHR 0x0A) (buffer c));
             line = take lineEnd (buffer c);
             c1 = c\<lparr>buffer := drop (lineEnd + 1) (buffer c)\<rparr>;
             c2 = (if length line > 0 then processMessage parse line c1 else c1)
         in handleData_loop parse c2)
      else c)"
  by pat_completeness auto

text \<open>
  Everything \<open>processMessage\<close> does is to append effects to the trace; the loop therefore
  shortens the buffer at each turn and ends.
\<close>

definition extends :: "client \<Rightarrow> client \<Rightarrow> bool" where
  "extends c c' = (\<exists>es. c' = c\<lparr>trace := trace c @ es\<rparr>)"

lemma extends_refl: "extends c c"
  unfolding extends_def by (rule exI [of _ "[]"]) simp

lemma extends_effect: "extends c c1 \<Longrightarrow> extends c (effect e c1)"
  by (auto simp: extends_def effect_def)

lemma extends_emit: "extends c c1 \<Longrightarrow> extends c (emit ev c1)"
  by (simp add: emit_def extends_effect)

lemma extends_trans: "extends c c1 \<Longrightarrow> extends c1 c2 \<Longrightarrow> extends c c2"
  by (auto simp: extends_def)

lemma extends_buffer: "extends c c' \<Longrightarrow> buffer c' = buffer c"
  by (auto simp: extends_def)

lemma parsePlayerMessenger_extends: "extends c (snd (parsePlayerMessenger m c))"
  unfolding parsePlayerMessenger_def Let_def
  by (auto split: sum.splits intro!: extends_emit extends_refl)

lemma parseAutopilotDisplay_extends: "extends c (snd (parseAutopilotDisplay m c))"
  unfolding parseAutopilotDisplay_def
  by (auto split: sum.splits intro!: extends_emit extends_refl)

lemma parseSpecialMessages_extends: "extends c (snd (parseSpecialMessages m c))"
proof (cases "parsePlayerMessenger m c")
  case (Pair r c1)
  have "extends c c1"
    using parsePlayerMessenger_extends [of c m] Pair by simp
  moreover have "extends c1 (snd (parseAutopilotDisplay m c1))"
    by (rule parseAutopilotDisplay_extends)
  ultimately show ?thesis
    using Pair by (cases r) (auto simp: parseSpecialMessages_def intro: extends_trans)
qed

lemma processMessage_extends: "extends c (processMessage parse line c)"
proof -
  have sp: "extends c (snd (parseSpecialMessages m (emit (EvMessage m) c)))" for m
    using parseSpecialMessages_extends [of "emit (EvMessage m) c" m]
      extends_emit [OF extends_refl, of c "EvMessage m"]
    by (blast intro: extends_trans)
  show ?thesis
    unfolding processMessage_def Let_def
    using sp extends_effect [OF sp]
    by (auto split: option.splits prod.splits intro!: extends_effect extends_refl)
       (metis snd_conv)+
qed

lemma buffer_processMessage: "buffer (processMessage parse line c) = buffer c"
  using processMessage_extends [of c parse line] extends_buffer by blast

termination handleData_loop
proof (relation "measure (\<lambda>(parse, c). length (buffer c))")
  show "wf (measure (\<lambda>(parse, c). length (buffer c)))" by simp
next
  fix parse :: "string \<Rightarrow> jsval option" and c :: client
    and lineEnd line c1 c2
  assume nl: "CHR 0x0A \<in> set (buffer c)"
    and le: "lineEnd = length (takeWhile (\<lambda>x. x \<noteq> CHR 0x0A) (buffer c))"
    and c1: "c1 = c\<lparr>buffer := drop (lineEnd + 1) (buffer c)\<rparr>"
    and c2: "c2 = (if 0 < length line then processMessage parse line c1 else c1)"
  have "buffer c2 = drop (lineEnd + 1) (buffer c)"
    using c1 c2 by (simp add: buffer_processMessage)
  moreover have "buffer c \<noteq> []" using nl by auto
  ultimately show "((parse, c2), (parse, c)) \<in> measure (\<lambda>(parse, c). length (buffer c))"
    by simp
qed

declare handleData_loop.simps [simp del]

definition handleData :: "(string \<Rightarrow> jsval option) \<Rightarrow> string \<Rightarrow> client \<Rightarrow> client" where
  "handleData parse data c = handleData_loop parse (c\<lparr>buffer := buffer c @ data\<rparr>)"

definition on_data :: "(string \<Rightarrow> jsval option) \<Rightarrow> string \<Rightarrow> client \<Rightarrow> client" where
  "on_data parse data c = handleData parse data c"

subsection \<open>Observations on the trace\<close>

text \<open>The number of transports opened so far: the \<open>socket.connect\<close> calls in the trace.\<close>

definition transports_opened :: "client \<Rightarrow> nat" where
  "transports_opened c =
     length (filter (\<lambda>e. case e of SocketConnect p h \<Rightarrow> True | _ \<Rightarrow> False) (trace c))"

text \<open>The value of \<open>v.k\<close> where reading it does not throw, \<open>undefined\<close> where it does.\<close>

definition field :: "jsval \<Rightarrow> string \<Rightarrow> jsval" where
  "field v k = (case getProp v k of Inl e \<Rightarrow> JUndefined | Inr x \<Rightarrow> x)"

text \<open>
  \<open>appended Q c c'\<close>: the client \<open>c'\<close> is \<open>c\<close> with further effects in its trace, all of
  them satisfying \<open>Q\<close>.
\<close>

definition appended :: "(effect \<Rightarrow> bool) \<Rightarrow> client \<Rightarrow> client \<Rightarrow> bool" where
  "appended Q c c' = (\<exists>es. c' = c\<lparr>trace := trace c @ es\<rparr> \<and> list_all Q es)"

text \<open>The two events derived from a \<open>PlayerMessenger\<close> envelope.\<close>

definition messenger_event :: "effect \<Rightarrow> bool" where
  "messenger_event e =
     ((\<exists>p. e = Emit (EvBoatProperties p)) \<or> (\<exists>p. e = Emit (EvGameNotification p)))"

text \<open>
  What can follow the events of the \<open>PlayerMessenger\<close> envelope in the trace of one
  frame: nothing, the compass event, or the error logged by the \<open>catch\<close> clause.
\<close>

definition tail_ok :: "effect list \<Rightarrow> bool" where
  "tail_ok es = (es = [] \<or> (\<exists>d. es = [Emit (EvCompassDisplay d)]) \<or>
     es = [ConsoleError ''Error parsing message:''])"

subsection \<open>Example frames\<close>

text \<open>
  The message of the examples below: a \<open>PlayerMessenger\<close> envelope with the given tag,
  holding boat properties and a game notification.
\<close>

definition example_messenger :: "string \<Rightarrow> jsval" where
  "example_messenger tag =
     JObj [(''PlayerMessenger'',
       JObj [(''t'', JStr tag),
             (''v'', JObj [(''Props'', JObj [(''EngineCount'', JNum (Fin 1))]),
                          (''Msg'', JObj [(''Type'', JStr ''Game''), (''Noti'', JStr ''Spawned'')])])])]"

text \<open>
  A stand-in for \<open>JSON.parse\<close> in the examples: its values on the JSON texts used there.
  Every other text counts as rejected; the one used below, \<open>{oops\<close>, is not JSON.
\<close>

definition example_parse :: "string \<Rightarrow> jsval option" where
  \<open>example_parse s =
     (if s = ''{"A":1}'' then Some (JObj [(''A'', JNum (Fin 1))])
      else if s = ''{"B":2}'' then Some (JObj [(''B'', JNum (Fin 2))])
      else if s = ''{"C":3}'' then Some (JObj [(''C'', JNum (Fin 3))])
      else if s = ''{"PlayerMessenger":{"t":"J","v":{"Props":{"EngineCount":1},"Msg":{"Type":"Game","Noti":"Spawned"}}}}''
        then Some (example_messenger ''J'')
      else if s = ''{"PlayerMessenger":{"t":"S","v":{"Props":{"EngineCount":1},"Msg":{"Type":"Game","Noti":"Spawned"}}}}''
        then Some (example_messenger ''S'')
      else if s = ''{"AP_display":{"t":"S","v":270}}''
        then Some (JObj [(''AP_display'', JObj [(''t'', JStr ''S''), (''v'', JNum (Fin 270))])])
      else None)\<close>

section \<open>Properties\<close>

subsection \<open>Sending: type codes, clamping and the frame\<close>

lemma clamp_unit:
  "x \<noteq> NaN \<Longrightarrow> clamp x (Fin (- 1)) (Fin 1) =
     (if num_less (Fin 1) x then Fin 1 else if num_less x (Fin (- 1)) then Fin (- 1) else x)"
  by (cases x) (auto simp: clamp_def math_min_def math_max_def)

lemma clamp_unit_range:
  "x \<noteq> NaN \<Longrightarrow> num_le (Fin (- 1)) (clamp x (Fin (- 1)) (Fin 1)) \<and>
     num_le (clamp x (Fin (- 1)) (Fin 1)) (Fin 1)"
  by (cases x) (auto simp: clamp_def math_min_def math_max_def num_le_def)

lemma round_clamp:
  "x \<noteq> NaN \<Longrightarrow> math_max (Fin (- 1)) (math_min (Fin 1) (math_round x)) =
     (case x of Fin q \<Rightarrow> Fin (of_int (max (- 1) (min 1 \<lfloor>q + 1 / 2\<rfloor>)))
              | PosInf \<Rightarrow> Fin 1 | NegInf \<Rightarrow> Fin (- 1) | NaN \<Rightarrow> NaN)"
  by (cases x) (auto simp: math_min_def math_max_def max_def min_def)

lemma round_clamp_range:
  assumes "x \<noteq> NaN"
  shows "math_max (Fin (- 1)) (math_min (Fin 1) (math_round x)) \<in> {Fin (- 1), Fin 0, Fin 1}"
proof (cases x)
  case (Fin q)
  have "max (- 1) (min 1 z) \<in> {- 1, 0, 1 :: int}" for z
    by (auto simp: max_def min_def)
  then have "max (- 1) (min 1 \<lfloor>q + 1 / 2\<rfloor>) \<in> {- 1, 0, 1 :: int}" .
  moreover have "math_max (Fin (- 1)) (math_min (Fin 1) (math_round x)) =
      Fin (of_int (max (- 1) (min 1 \<lfloor>q + 1 / 2\<rfloor>)))"
    using round_clamp [OF assms] Fin by simp
  ultimately show ?thesis
    by auto
qed (use assms in \<open>auto simp: math_min_def math_max_def\<close>)

text \<open>The client of the examples: built with the defaults, connected.\<close>

lemma connected_client:
  "on_connect (connect (new_client ''localhost'' (Fin 2612) None None None)) =
     \<lparr> socket = Some Socket, buffer = [], state = Connected, reconnectTimer = None,
       options = \<lparr> host = ''localhost'', port = Fin 2612, autoReconnect = True,
                   reconnectDelay = Fin 5000, groupId = Fin 1 \<rparr>,
       trace = [SocketConnect (Fin 2612) ''localhost'', Emit EvConnected] \<rparr>"
  by (simp add: new_client_def connect_def on_connect_def emit_def effect_def nullish_def)

lemma sendControl_connected:
  assumes "state c = Connected" and "socket c \<noteq> None"
    and "stringify (JObj [(k, JObj [(''t'', JStr (getTypeCode v)), (''v'', v)])]) = Inr (Some j)"
  shows "sendControl k v c =
     c\<lparr>trace := trace c @ [SocketWrite (number_toString (groupId (options c)) @ j @ [CHR 0x00])]\<rparr>"
  using assms by (auto simp: sendControl_def sendMessage_def isConnected_def effect_def)

lemma one_toString: "rat_toString 1 = ''1''"
  by code_simp

lemma throttle_quarter_json:
  \<open>stringify (JObj [(''BoatThrottle0'',
       JObj [(''t'', JStr (getTypeCode (JNum (Fin (1 / 4))))), (''v'', JNum (Fin (1 / 4)))])]) =
     Inr (Some ''{"BoatThrottle0":{"t":"F","v":0.25}}'')\<close>
  by code_simp

lemma rudder_one_json:
  \<open>stringify (JObj [(''BoatRuder'',
       JObj [(''t'', JStr (getTypeCode (JNum (Fin 1)))), (''v'', JNum (Fin 1))])]) =
     Inr (Some ''{"BoatRuder":{"t":"I","v":1}}'')\<close>
  by code_simp

lemma rudder_minus_one_json:
  \<open>stringify (JObj [(''BoatRuder'',
       JObj [(''t'', JStr (getTypeCode (JNum (Fin (- 1))))), (''v'', JNum (Fin (- 1)))])]) =
     Inr (Some ''{"BoatRuder":{"t":"I","v":-1}}'')\<close>
  by code_simp

lemma rudder_NaN_json:
  \<open>stringify (JObj [(''BoatRuder'',
       JObj [(''t'', JStr (getTypeCode (JNum NaN))), (''v'', JNum NaN)])]) =
     Inr (Some ''{"BoatRuder":{"t":"F","v":null}}'')\<close>
  by code_simp

lemma thruster_one_json:
  \<open>stringify (JObj [(''BowThruster'',
       JObj [(''t'', JStr (getTypeCode (JNum (Fin 1)))), (''v'', JNum (Fin 1))])]) =
     Inr (Some ''{"BowThruster":{"t":"I","v":1}}'')\<close>
  by code_simp

text \<open>
  C3. With group id 1 and the engine index left out, \<open>sendThrottle(0.25)\<close> on a connected
  client writes exactly the text \<open>1{"BoatThrottle0":{"t":"F","v":0.25}}\<close> followed by one
  NUL character, and nothing else: no newline is part of the frame.
\<close>

theorem sendThrottle_quarter_frame:
  assumes "state c = Connected" and "socket c \<noteq> None" and "groupId (options c) = Fin 1"
  shows \<open>sendThrottle (Fin (1 / 4)) None c =
     c\<lparr>trace := trace c @
        [SocketWrite (''1{"BoatThrottle0":{"t":"F","v":0.25}}'' @ [CHR 0x00])]\<rparr>\<close>
proof -
  have k: "''BoatThrottle'' @ number_toString (nullish None (Fin 0)) = ''BoatThrottle0''"
    by code_simp
  have v: "clamp (Fin (1 / 4)) (Fin (- 1)) (Fin 1) = Fin (1 / 4)"
    by (simp add: clamp_unit)
  show ?thesis
    unfolding sendThrottle_def Let_def k v
    using sendControl_connected [OF assms(1,2) throttle_quarter_json] assms(3)
    by (simp add: one_toString)
qed

theorem sendThrottle_quarter_frame_witness:
  \<open>state (on_connect (connect (new_client ''localhost'' (Fin 2612) None None None))) = Connected \<and>
   socket (on_connect (connect (new_client ''localhost'' (Fin 2612) None None None))) \<noteq> None \<and>
   groupId (options (on_connect (connect (new_client ''localhost'' (Fin 2612) None None None)))) = Fin 1 \<and>
   trace (sendThrottle (Fin (1 / 4)) None
            (on_connect (connect (new_client ''localhost'' (Fin 2612) None None None)))) =
     [SocketConnect (Fin 2612) ''localhost'', Emit EvConnected,
      SocketWrite (''1{"BoatThrottle0":{"t":"F","v":0.25}}'' @ [CHR 0x00])]\<close>
proof -
  let ?c = "on_connect (connect (new_client ''localhost'' (Fin 2612) None None None))"
  have h1: "state ?c = Connected" and h2: "socket ?c \<noteq> None"
    and h3: "groupId (options ?c) = Fin 1"
    by (simp_all add: connected_client)
  show ?thesis
    using h1 h2 h3 sendThrottle_quarter_frame [OF h1 h2 h3]
    by (simp add: connected_client)
qed


text \<open>
  C5. The type code chosen for a value: \<open>'I'\<close> for an integer-valued number, \<open>'F'\<close> for any
  other number, \<open>'B'\<close> for a boolean, \<open>'S'\<close> for a string, \<open>'J'\<close> for a value whose
  \<open>typeof\<close> is \<open>'object'\<close>, and \<open>'S'\<close> for a value of any other runtime type; a code is
  chosen for every value.
\<close>

theorem getTypeCode_tags:
  "(\<forall>x. (\<exists>i. x = Fin (of_int i)) \<longrightarrow> getTypeCode (JNum x) = ''I'') \<and>
   (\<forall>x. (\<nexists>i. x = Fin (of_int i)) \<longrightarrow> getTypeCode (JNum x) = ''F'') \<and>
   (\<forall>b. getTypeCode (JBool b) = ''B'') \<and>
   (\<forall>s. getTypeCode (JStr s) = ''S'') \<and>
   (\<forall>v. typeof v = TObject \<longrightarrow> getTypeCode v = ''J'') \<and>
   (\<forall>v. typeof v \<notin> {TNumber, TBoolean, TString, TObject} \<longrightarrow> getTypeCode v = ''S'') \<and>
   (\<forall>v. getTypeCode v \<in> {''I'', ''F'', ''B'', ''S'', ''J''})"
proof -
  have int: "isInteger x \<longleftrightarrow> (\<exists>i. x = Fin (of_int i))" for x
    by (cases x) (auto intro: exI [of _ "\<lfloor>_\<rfloor>"])
  have num: "getTypeCode (JNum x) = (if \<exists>i. x = Fin (of_int i) then ''I'' else ''F'')" for x
    by (simp add: getTypeCode_def Number_isInteger_def int)
  have other: "getTypeCode v = ''S''"
    if "typeof v \<notin> {TNumber, TBoolean, TString, TObject}" for v
    using that by (simp add: getTypeCode_def)
  have total: "getTypeCode v \<in> {''I'', ''F'', ''B'', ''S'', ''J''}" for v
    by (simp add: getTypeCode_def)
  have obj: "getTypeCode v = ''J''" if "typeof v = TObject" for v
    using that by (simp add: getTypeCode_def)
  have bool: "getTypeCode (JBool b) = ''B''" for b
    by (simp add: getTypeCode_def)
  have str: "getTypeCode (JStr s) = ''S''" for s
    by (simp add: getTypeCode_def)
  show ?thesis
    using num other total obj bool str by presburger
qed

theorem getTypeCode_tags_witness:
  "(\<exists>i. Fin 3 = Fin (of_int i)) \<and> getTypeCode (JNum (Fin 3)) = ''I'' \<and>
   (\<nexists>i. Fin (1 / 4) = Fin (of_int i)) \<and> getTypeCode (JNum (Fin (1 / 4))) = ''F'' \<and>
   (\<nexists>i. NaN = Fin (of_int i)) \<and> getTypeCode (JNum NaN) = ''F'' \<and>
   getTypeCode (JBool True) = ''B'' \<and> getTypeCode (JStr ''abc'') = ''S'' \<and>
   typeof (JObj [(''a'', JNull)]) = TObject \<and> getTypeCode (JObj [(''a'', JNull)]) = ''J'' \<and>
   typeof JUndefined \<notin> {TNumber, TBoolean, TString, TObject} \<and> getTypeCode JUndefined = ''S''"
proof -
  have three: "\<exists>i. Fin 3 = Fin (of_int i)"
    by (rule exI [of _ 3]) simp
  have quarter: "\<nexists>i. Fin (1 / 4) = Fin (of_int i)"
  proof
    assume "\<exists>i. Fin (1 / 4) = Fin (of_int i)"
    then obtain i :: int where "(1 / 4 :: rat) = of_int i" by auto
    then have "of_int (4 * i) = (of_int 1 :: rat)" by simp
    then have "4 * i = 1" by (simp only: of_int_eq_iff)
    then show False by presburger
  qed
  have nan: "\<nexists>i. NaN = Fin (of_int i)" by simp
  have obj: "typeof (JObj [(''a'', JNull)]) = TObject" by simp
  have undef: "typeof JUndefined \<notin> {TNumber, TBoolean, TString, TObject}" by simp
  show ?thesis
    using getTypeCode_tags three quarter nan obj undef by blast
qed

text \<open>
  C6, as stated, fails for NaN: \<open>Math.min\<close> and \<open>Math.max\<close> return NaN when given NaN, so
  \<open>sendRudder(NaN)\<close> and \<open>sendBowThruster(NaN)\<close> encode NaN, which lies in no range and is
  written as \<open>null\<close>.
\<close>

theorem sendRudder_NaN_not_clamped:
  \<open>sendRudder NaN (on_connect (connect (new_client ''localhost'' (Fin 2612) None None None))) =
     sendControl ''BoatRuder'' (JNum NaN)
       (on_connect (connect (new_client ''localhost'' (Fin 2612) None None None))) \<and>
   \<not> num_le (Fin (- 1)) NaN \<and> \<not> num_le NaN (Fin 1) \<and>
   trace (sendRudder NaN (on_connect (connect (new_client ''localhost'' (Fin 2612) None None None)))) =
     [SocketConnect (Fin 2612) ''localhost'', Emit EvConnected,
      SocketWrite (''1{"BoatRuder":{"t":"F","v":null}}'' @ [CHR 0x00])] \<and>
   sendBowThruster NaN (on_connect (connect (new_client ''localhost'' (Fin 2612) None None None))) =
     sendControl ''BowThruster'' (JNum NaN)
       (on_connect (connect (new_client ''localhost'' (Fin 2612) None None None))) \<and>
   NaN \<notin> {Fin (- 1), Fin 0, Fin 1}\<close>
proof -
  let ?c = "on_connect (connect (new_client ''localhost'' (Fin 2612) None None None))"
  have h1: "state ?c = Connected" and h2: "socket ?c \<noteq> None"
    by (simp_all add: connected_client)
  have r: "sendRudder NaN ?c = sendControl ''BoatRuder'' (JNum NaN) ?c"
    by (simp add: sendRudder_def clamp_def math_min_def math_max_def)
  have b: "sendBowThruster NaN ?c = sendControl ''BowThruster'' (JNum NaN) ?c"
    by (simp add: sendBowThruster_def math_min_def math_max_def)
  have t: \<open>trace (sendControl ''BoatRuder'' (JNum NaN) ?c) =
     [SocketConnect (Fin 2612) ''localhost'', Emit EvConnected,
      SocketWrite (''1{"BoatRuder":{"t":"F","v":null}}'' @ [CHR 0x00])]\<close>
    unfolding sendControl_connected [OF h1 h2 rudder_NaN_json]
    by (simp add: connected_client one_toString)
  show ?thesis
    unfolding r b using t by (simp add: num_le_def)
qed

text \<open>
  C6, amended. For every number \<open>x\<close> other than NaN, \<open>sendRudder(x)\<close> encodes \<open>x\<close> clamped
  to the range from -1 to 1 (1 above the range, -1 below it, \<open>x\<close> itself inside), and
  \<open>sendBowThruster(x)\<close> encodes the integer nearest to \<open>x\<close> (a tie going up) clamped to
  -1, 0 or 1. So \<open>sendRudder(2.0)\<close> encodes 1, \<open>sendRudder(-5.0)\<close> encodes -1 and
  \<open>sendBowThruster(0.6)\<close> encodes 1.
\<close>

theorem sendRudder_sendBowThruster_clamp:
  assumes "x \<noteq> NaN"
  shows "sendRudder x c =
      sendControl ''BoatRuder''
        (JNum (if num_less (Fin 1) x then Fin 1
               else if num_less x (Fin (- 1)) then Fin (- 1) else x)) c \<and>
    num_le (Fin (- 1)) (clamp x (Fin (- 1)) (Fin 1)) \<and>
    num_le (clamp x (Fin (- 1)) (Fin 1)) (Fin 1) \<and>
    sendBowThruster x c =
      sendControl ''BowThruster''
        (JNum (case x of Fin q \<Rightarrow> Fin (of_int (max (- 1) (min 1 \<lfloor>q + 1 / 2\<rfloor>)))
                       | PosInf \<Rightarrow> Fin 1 | NegInf \<Rightarrow> Fin (- 1) | NaN \<Rightarrow> NaN)) c \<and>
    math_max (Fin (- 1)) (math_min (Fin 1) (math_round x)) \<in> {Fin (- 1), Fin 0, Fin 1}"
  using clamp_unit [OF assms] clamp_unit_range [OF assms] round_clamp [OF assms]
    round_clamp_range [OF assms]
  by (simp add: sendRudder_def sendBowThruster_def)

theorem sendRudder_sendBowThruster_clamp_witness:
  \<open>Fin 2 \<noteq> NaN \<and> Fin (- 5) \<noteq> NaN \<and> Fin (3 / 5) \<noteq> NaN \<and>
   trace (sendRudder (Fin 2)
            (on_connect (connect (new_client ''localhost'' (Fin 2612) None None None)))) =
     [SocketConnect (Fin 2612) ''localhost'', Emit EvConnected,
      SocketWrite (''1{"BoatRuder":{"t":"I","v":1}}'' @ [CHR 0x00])] \<and>
   trace (sendRudder (Fin (- 5))
            (on_connect (connect (new_client ''localhost'' (Fin 2612) None None None)))) =
     [SocketConnect (Fin 2612) ''localhost'', Emit EvConnected,
      SocketWrite (''1{"BoatRuder":{"t":"I","v":-1}}'' @ [CHR 0x00])] \<and>
   trace (sendBowThruster (Fin (3 / 5))
            (on_connect (connect (new_client ''localhost'' (Fin 2612) None None None)))) =
     [SocketConnect (Fin 2612) ''localhost'', Emit EvConnected,
      SocketWrite (''1{"BowThruster":{"t":"I","v":1}}'' @ [CHR 0x00])]\<close>
proof -
  let ?c = "on_connect (connect (new_client ''localhost'' (Fin 2612) None None None))"
  have h1: "state ?c = Connected" and h2: "socket ?c \<noteq> None"
    by (simp_all add: connected_client)
  have n2: "Fin 2 \<noteq> NaN" and n5: "Fin (- 5) \<noteq> NaN" and n6: "Fin (3 / 5) \<noteq> NaN"
    by simp_all
  have f: "\<lfloor>(3 / 5 :: rat) + 1 / 2\<rfloor> = 1"
    by code_simp
  have r2: "sendRudder (Fin 2) ?c = sendControl ''BoatRuder'' (JNum (Fin 1)) ?c"
    using sendRudder_sendBowThruster_clamp [OF n2, of ?c] by simp
  have r5: "sendRudder (Fin (- 5)) ?c = sendControl ''BoatRuder'' (JNum (Fin (- 1))) ?c"
    using sendRudder_sendBowThruster_clamp [OF n5, of ?c] by simp
  have b6: "sendBowThruster (Fin (3 / 5)) ?c = sendControl ''BowThruster'' (JNum (Fin 1)) ?c"
    using sendRudder_sendBowThruster_clamp [OF n6, of ?c] by (simp add: f)
  show ?thesis
    unfolding r2 r5 b6
      sendControl_connected [OF h1 h2 rudder_one_json]
      sendControl_connected [OF h1 h2 rudder_minus_one_json]
      sendControl_connected [OF h1 h2 thruster_one_json]
    by (simp add: connected_client one_toString)
qed

subsection \<open>Connection lifecycle\<close>

text \<open>
  C8. \<open>connect()\<close> on a client that is Connecting or Connected only warns: the state and
  the socket stay as they are and no transport is opened. Two calls in a row on a client
  that is neither open exactly one transport, and leave it Connecting.
\<close>

theorem connect_twice_opens_one:
  "(state c = Connecting \<or> state c = Connected \<longrightarrow>
      connect c = c\<lparr>trace := trace c @ [ConsoleWarn ''Already connected or connecting'']\<rparr> \<and>
      transports_opened (connect c) = transports_opened c) \<and>
   (state c \<noteq> Connecting \<and> state c \<noteq> Connected \<longrightarrow>
      state (connect c) = Connecting \<and>
      transports_opened (connect c) = transports_opened c + 1 \<and>
      connect (connect c) =
        (connect c)\<lparr>trace := trace (connect c) @ [ConsoleWarn ''Already connected or connecting'']\<rparr> \<and>
      transports_opened (connect (connect c)) = transports_opened c + 1)"
  by (auto simp: connect_def effect_def transports_opened_def)

theorem connect_twice_opens_one_witness:
  "state (new_client ''localhost'' (Fin 2612) None None None) \<noteq> Connecting \<and>
   state (new_client ''localhost'' (Fin 2612) None None None) \<noteq> Connected \<and>
   transports_opened (new_client ''localhost'' (Fin 2612) None None None) = 0 \<and>
   transports_opened (connect (connect (new_client ''localhost'' (Fin 2612) None None None))) = 1 \<and>
   state (connect (new_client ''localhost'' (Fin 2612) None None None)) = Connecting \<and>
   trace (connect (connect (new_client ''localhost'' (Fin 2612) None None None))) =
     [SocketConnect (Fin 2612) ''localhost'', ConsoleWarn ''Already connected or connecting''] \<and>
   state (on_connect (connect (new_client ''localhost'' (Fin 2612) None None None))) = Connected \<and>
   transports_opened
     (connect (on_connect (connect (new_client ''localhost'' (Fin 2612) None None None)))) = 1"
proof -
  let ?n = "new_client ''localhost'' (Fin 2612) None None None"
  have s: "state ?n \<noteq> Connecting \<and> state ?n \<noteq> Connected"
    by (simp add: new_client_def)
  have z: "transports_opened ?n = 0"
    by (simp add: new_client_def transports_opened_def)
  have t1: "trace (connect ?n) = [SocketConnect (Fin 2612) ''localhost'']"
    by (simp add: new_client_def connect_def effect_def nullish_def)
  have k: "state (on_connect (connect ?n)) = Connected"
    and o: "transports_opened (on_connect (connect ?n)) = 1"
    by (simp_all add: connected_client transports_opened_def)
  have st: "state (connect ?n) = Connecting"
    and op: "transports_opened (connect (connect ?n)) = transports_opened ?n + 1"
    and eq: "connect (connect ?n) =
      (connect ?n)\<lparr>trace := trace (connect ?n) @ [ConsoleWarn ''Already connected or connecting'']\<rparr>"
    using s connect_twice_opens_one [of ?n] by blast+
  have two: "transports_opened (connect (connect ?n)) = 1"
    using op z by simp
  have "trace (connect (connect ?n)) =
      trace (connect ?n) @ [ConsoleWarn ''Already connected or connecting'']"
    by (subst eq) simp
  then have tr: "trace (connect (connect ?n)) =
      [SocketConnect (Fin 2612) ''localhost'', ConsoleWarn ''Already connected or connecting'']"
    by (simp add: t1)
  have "transports_opened (connect (on_connect (connect ?n))) =
      transports_opened (on_connect (connect ?n))"
    using k connect_twice_opens_one [of "on_connect (connect ?n)"] by blast
  then have again: "transports_opened (connect (on_connect (connect ?n))) = 1"
    by (simp only: o)
  show ?thesis
    using s z two st tr k again by blast
qed

text \<open>
  What the close handler does, case by case: the flag \<open>wasConnected\<close> is computed from
  the state at the moment of the close.
\<close>

lemma on_close_cases:
  "on_close c =
     (if autoReconnect (options c) \<and> state c = Connected \<and> reconnectTimer c = None
      then c\<lparr>state := Disconnected, reconnectTimer := Some Timeout,
             trace := trace c @ [Emit EvDisconnected, SetTimeout (reconnectDelay (options c))]\<rparr>
      else c\<lparr>state := Disconnected, trace := trace c @ [Emit EvDisconnected]\<rparr>)"
  by (auto simp: on_close_def scheduleReconnect_def emit_def effect_def Let_def)

text \<open>
  C1. With auto-reconnect enabled, the close of a session that had reached Connected is
  to schedule one reconnect after the configured delay, also when the close arrives in
  the Error state. The code does so when the close comes straight after Connected, and
  schedules nothing when the session was never Connected. It misses the session that was
  Connected and then hit a socket error: the error handler has replaced the state by
  Error before the close handler computes \<open>wasConnected\<close>, so the run connect, connected,
  error, close sets no timer.
\<close>

theorem close_after_error_no_reconnect:
  "autoReconnect (options (new_client ''localhost'' (Fin 2612) None None None)) \<and>
   state (on_connect (connect (new_client ''localhost'' (Fin 2612) None None None))) = Connected \<and>
   trace (on_close (on_connect (connect (new_client ''localhost'' (Fin 2612) None None None)))) =
     [SocketConnect (Fin 2612) ''localhost'', Emit EvConnected, Emit EvDisconnected,
      SetTimeout (Fin 5000)] \<and>
   reconnectTimer
     (on_close (on_connect (connect (new_client ''localhost'' (Fin 2612) None None None)))) =
     Some Timeout \<and>
   trace (on_close (on_error ''ECONNREFUSED''
       (connect (new_client ''localhost'' (Fin 2612) None None None)))) =
     [SocketConnect (Fin 2612) ''localhost'', ConsoleError ''Socket error:'',
      Emit (EvError ''ECONNREFUSED''), Emit EvDisconnected] \<and>
   state (on_error ''ECONNRESET''
     (on_connect (connect (new_client ''localhost'' (Fin 2612) None None None)))) = Error \<and>
   reconnectTimer (on_close (on_error ''ECONNRESET''
     (on_connect (connect (new_client ''localhost'' (Fin 2612) None None None))))) = None \<and>
   trace (on_close (on_error ''ECONNRESET''
     (on_connect (connect (new_client ''localhost'' (Fin 2612) None None None))))) =
     [SocketConnect (Fin 2612) ''localhost'', Emit EvConnected, ConsoleError ''Socket error:'',
      Emit (EvError ''ECONNRESET''), Emit EvDisconnected]"
proof -
  let ?n = "new_client ''localhost'' (Fin 2612) None None None"
  have a: "autoReconnect (options ?n)"
    by (simp add: new_client_def nullish_def)
  have refused: "trace (on_close (on_error ''ECONNREFUSED'' (connect ?n))) =
     [SocketConnect (Fin 2612) ''localhost'', ConsoleError ''Socket error:'',
      Emit (EvError ''ECONNREFUSED''), Emit EvDisconnected]"
    by (simp add: on_close_cases on_error_def connect_def emit_def effect_def
        new_client_def nullish_def)
  show ?thesis
    using a refused
    by (simp add: connected_client on_close_cases on_error_def emit_def effect_def)
qed

subsection \<open>Receiving: framing\<close>

lemma loop_done: "CHR 0x0A \<notin> set (buffer c) \<Longrightarrow> handleData_loop parse c = c"
  by (subst handleData_loop.simps) simp

lemma loop_line:
  assumes "CHR 0x0A \<notin> set line" and "buffer c = line @ CHR 0x0A # rest"
  shows "handleData_loop parse c =
     handleData_loop parse
       (if line = [] then c\<lparr>buffer := rest\<rparr>
        else processMessage parse line (c\<lparr>buffer := rest\<rparr>))"
proof -
  have tw: "takeWhile (\<lambda>x. x \<noteq> CHR 0x0A) (line @ CHR 0x0A # rest) = line"
    using assms(1) by (auto simp: takeWhile_tail)
  have nl: "CHR 0x0A \<in> set (buffer c)"
    using assms by simp
  show ?thesis
    by (subst handleData_loop.simps) (simp add: nl tw Let_def assms(2))
qed

lemma parsePlayerMessenger_buffer:
  "parsePlayerMessenger m (c\<lparr>buffer := b\<rparr>) =
     (fst (parsePlayerMessenger m c), (snd (parsePlayerMessenger m c))\<lparr>buffer := b\<rparr>)"
  by (simp add: parsePlayerMessenger_def Let_def emit_def effect_def split: sum.splits)

lemma parseAutopilotDisplay_buffer:
  "parseAutopilotDisplay m (c\<lparr>buffer := b\<rparr>) =
     (fst (parseAutopilotDisplay m c), (snd (parseAutopilotDisplay m c))\<lparr>buffer := b\<rparr>)"
  by (simp add: parseAutopilotDisplay_def emit_def effect_def split: sum.splits)

lemma parseSpecialMessages_buffer:
  "parseSpecialMessages m (c\<lparr>buffer := b\<rparr>) =
     (fst (parseSpecialMessages m c), (snd (parseSpecialMessages m c))\<lparr>buffer := b\<rparr>)"
  unfolding parseSpecialMessages_def parsePlayerMessenger_buffer
  by (cases "parsePlayerMessenger m c")
     (auto simp: parseAutopilotDisplay_buffer split: option.splits)

lemma processMessage_buffer:
  "processMessage parse line (c\<lparr>buffer := b\<rparr>) = (processMessage parse line c)\<lparr>buffer := b\<rparr>"
proof -
  have e: "emit ev (c\<lparr>buffer := b\<rparr>) = (emit ev c)\<lparr>buffer := b\<rparr>" for ev
    by (simp add: emit_def effect_def)
  show ?thesis
    unfolding processMessage_def Let_def e parseSpecialMessages_buffer
    by (auto simp: effect_def split: option.splits prod.splits)
qed

lemma processMessage_plain:
  assumes "2 \<le> length line" and "parse (drop 1 line) = Some (JObj ps)"
    and "map_of ps ''PlayerMessenger'' = None" and "map_of ps ''AP_display'' = None"
  shows "processMessage parse line c = c\<lparr>trace := trace c @ [Emit (EvMessage (JObj ps))]\<rparr>"
  using assms
  by (simp add: processMessage_def parseSpecialMessages_def parsePlayerMessenger_def
      parseAutopilotDisplay_def emit_def effect_def)

text \<open>
  C4. Fed the text of two complete frames and the beginning of a third, \<open>handleData\<close>
  processes exactly the two complete lines, in order, and keeps the beginning of the
  third in the buffer. Fed the rest of the third frame and its newline, it processes
  exactly one line, the kept text followed by the new text up to the newline, and empties
  the buffer. The two feeds together do what one feed of the whole text does.
\<close>

theorem handleData_partial_frame:
  \<open>(buffer c = [] \<longrightarrow>
      handleData parse (''1{"A":1}'' @ [CHR 0x0A] @ ''2{"B":2}'' @ [CHR 0x0A] @ ''3{"C":'') c =
        (processMessage parse ''2{"B":2}'' (processMessage parse ''1{"A":1}'' c))
          \<lparr>buffer := ''3{"C":''\<rparr>) \<and>
   (buffer c' = ''3{"C":'' \<longrightarrow>
      handleData parse (''3}'' @ [CHR 0x0A]) c' =
        (processMessage parse (''3{"C":'' @ ''3}'') c')\<lparr>buffer := []\<rparr>) \<and>
   (buffer c = [] \<longrightarrow>
      handleData parse (''3}'' @ [CHR 0x0A])
        (handleData parse (''1{"A":1}'' @ [CHR 0x0A] @ ''2{"B":2}'' @ [CHR 0x0A] @ ''3{"C":'') c) =
      handleData parse
        (''1{"A":1}'' @ [CHR 0x0A] @ ''2{"B":2}'' @ [CHR 0x0A] @ ''3{"C":'' @ ''3}'' @ [CHR 0x0A]) c)\<close>
proof -
  have first: \<open>handleData parse (''1{"A":1}'' @ [CHR 0x0A] @ ''2{"B":2}'' @ [CHR 0x0A] @ ''3{"C":'') c =
        (processMessage parse ''2{"B":2}'' (processMessage parse ''1{"A":1}'' c))
          \<lparr>buffer := ''3{"C":''\<rparr>\<close> if e: "buffer c = []" for c
  proof -
    let ?c0 = \<open>c\<lparr>buffer := ''1{"A":1}'' @ CHR 0x0A # ''2{"B":2}'' @ CHR 0x0A # ''3{"C":''\<rparr>\<close>
    let ?c1 = \<open>processMessage parse ''1{"A":1}'' (c\<lparr>buffer := ''2{"B":2}'' @ CHR 0x0A # ''3{"C":''\<rparr>)\<close>
    let ?c2 = \<open>processMessage parse ''2{"B":2}'' (?c1\<lparr>buffer := ''3{"C":''\<rparr>)\<close>
    have "handleData_loop parse ?c0 = handleData_loop parse ?c1"
      by (subst loop_line [where line = \<open>''1{"A":1}''\<close> and rest = \<open>''2{"B":2}'' @ CHR 0x0A # ''3{"C":''\<close>])
         simp_all
    also have "\<dots> = handleData_loop parse ?c2"
      by (subst loop_line [where line = \<open>''2{"B":2}''\<close> and rest = \<open>''3{"C":''\<close>])
         (simp_all add: buffer_processMessage)
    also have "\<dots> = ?c2"
      by (rule loop_done) (simp add: buffer_processMessage)
    finally show ?thesis
      by (simp add: handleData_def e processMessage_buffer)
  qed
  have second: \<open>handleData parse (''3}'' @ [CHR 0x0A]) c' =
        (processMessage parse (''3{"C":'' @ ''3}'') c')\<lparr>buffer := []\<rparr>\<close>
    if e: \<open>buffer c' = ''3{"C":''\<close> for c'
  proof -
    let ?c0 = \<open>c'\<lparr>buffer := ''3{"C":3}'' @ CHR 0x0A # []\<rparr>\<close>
    let ?c1 = \<open>processMessage parse ''3{"C":3}'' (c'\<lparr>buffer := []\<rparr>)\<close>
    have "handleData_loop parse ?c0 = handleData_loop parse ?c1"
      by (subst loop_line [where line = \<open>''3{"C":3}''\<close> and rest = "[]"]) simp_all
    also have "\<dots> = ?c1"
      by (rule loop_done) (simp add: buffer_processMessage)
    finally show ?thesis
      by (simp add: handleData_def e processMessage_buffer)
  qed
  have whole: \<open>handleData parse
        (''1{"A":1}'' @ [CHR 0x0A] @ ''2{"B":2}'' @ [CHR 0x0A] @ ''3{"C":'' @ ''3}'' @ [CHR 0x0A]) c =
      (processMessage parse ''3{"C":3}''
        (processMessage parse ''2{"B":2}'' (processMessage parse ''1{"A":1}'' c)))\<lparr>buffer := []\<rparr>\<close>
    if e: "buffer c = []"
  proof -
    let ?c0 = \<open>c\<lparr>buffer := ''1{"A":1}'' @ CHR 0x0A # ''2{"B":2}'' @ CHR 0x0A # ''3{"C":3}'' @ CHR 0x0A # []\<rparr>\<close>
    let ?c1 = \<open>processMessage parse ''1{"A":1}'' (c\<lparr>buffer := ''2{"B":2}'' @ CHR 0x0A # ''3{"C":3}'' @ CHR 0x0A # []\<rparr>)\<close>
    let ?c2 = \<open>processMessage parse ''2{"B":2}'' (?c1\<lparr>buffer := ''3{"C":3}'' @ CHR 0x0A # []\<rparr>)\<close>
    let ?c3 = \<open>processMessage parse ''3{"C":3}'' (?c2\<lparr>buffer := []\<rparr>)\<close>
    have "handleData_loop parse ?c0 = handleData_loop parse ?c1"
      by (subst loop_line [where line = \<open>''1{"A":1}''\<close>
            and rest = \<open>''2{"B":2}'' @ CHR 0x0A # ''3{"C":3}'' @ CHR 0x0A # []\<close>]) simp_all
    also have "\<dots> = handleData_loop parse ?c2"
      by (subst loop_line [where line = \<open>''2{"B":2}''\<close> and rest = \<open>''3{"C":3}'' @ CHR 0x0A # []\<close>])
         (simp_all add: buffer_processMessage)
    also have "\<dots> = handleData_loop parse ?c3"
      by (subst loop_line [where line = \<open>''3{"C":3}''\<close> and rest = "[]"])
         (simp_all add: buffer_processMessage)
    also have "\<dots> = ?c3"
      by (rule loop_done) (simp add: buffer_processMessage)
    finally show ?thesis
      by (simp add: handleData_def e processMessage_buffer)
  qed
  have both: \<open>handleData parse (''3}'' @ [CHR 0x0A])
        (handleData parse (''1{"A":1}'' @ [CHR 0x0A] @ ''2{"B":2}'' @ [CHR 0x0A] @ ''3{"C":'') c) =
      handleData parse
        (''1{"A":1}'' @ [CHR 0x0A] @ ''2{"B":2}'' @ [CHR 0x0A] @ ''3{"C":'' @ ''3}'' @ [CHR 0x0A]) c\<close>
    if e: "buffer c = []"
    unfolding first [OF e] whole [OF e]
    by (subst second) (simp_all add: processMessage_buffer)
  show ?thesis
    using first second both by blast
qed

theorem handleData_partial_frame_witness:
  \<open>buffer (new_client ''localhost'' (Fin 2612) None None None) = [] \<and>
   handleData example_parse (''1{"A":1}'' @ [CHR 0x0A] @ ''2{"B":2}'' @ [CHR 0x0A] @ ''3{"C":'')
       (new_client ''localhost'' (Fin 2612) None None None) =
     (new_client ''localhost'' (Fin 2612) None None None)
       \<lparr>buffer := ''3{"C":'',
        trace := [Emit (EvMessage (JObj [(''A'', JNum (Fin 1))])),
                  Emit (EvMessage (JObj [(''B'', JNum (Fin 2))]))]\<rparr> \<and>
   handleData example_parse (''3}'' @ [CHR 0x0A])
       (handleData example_parse (''1{"A":1}'' @ [CHR 0x0A] @ ''2{"B":2}'' @ [CHR 0x0A] @ ''3{"C":'')
          (new_client ''localhost'' (Fin 2612) None None None)) =
     (new_client ''localhost'' (Fin 2612) None None None)
       \<lparr>buffer := [],
        trace := [Emit (EvMessage (JObj [(''A'', JNum (Fin 1))])),
                  Emit (EvMessage (JObj [(''B'', JNum (Fin 2))])),
                  Emit (EvMessage (JObj [(''C'', JNum (Fin 3))]))]\<rparr>\<close>
proof -
  let ?n = "new_client ''localhost'' (Fin 2612) None None None"
  have e: "buffer ?n = []" and t: "trace ?n = []"
    by (simp_all add: new_client_def)
  have a: \<open>processMessage example_parse ''1{"A":1}'' c =
      c\<lparr>trace := trace c @ [Emit (EvMessage (JObj [(''A'', JNum (Fin 1))]))]\<rparr>\<close> for c
    by (rule processMessage_plain) (simp_all add: example_parse_def)
  have b: \<open>processMessage example_parse ''2{"B":2}'' c =
      c\<lparr>trace := trace c @ [Emit (EvMessage (JObj [(''B'', JNum (Fin 2))]))]\<rparr>\<close> for c
    by (rule processMessage_plain) (simp_all add: example_parse_def)
  have c: \<open>processMessage example_parse ''3{"C":3}'' c =
      c\<lparr>trace := trace c @ [Emit (EvMessage (JObj [(''C'', JNum (Fin 3))]))]\<rparr>\<close> for c
    by (rule processMessage_plain) (simp_all add: example_parse_def)
  have first: \<open>handleData example_parse
       (''1{"A":1}'' @ [CHR 0x0A] @ ''2{"B":2}'' @ [CHR 0x0A] @ ''3{"C":'') ?n =
     ?n\<lparr>buffer := ''3{"C":'',
        trace := [Emit (EvMessage (JObj [(''A'', JNum (Fin 1))])),
                  Emit (EvMessage (JObj [(''B'', JNum (Fin 2))]))]\<rparr>\<close>
    using e handleData_partial_frame [of ?n example_parse]
    by (simp add: a b t)
  have second: \<open>handleData example_parse (''3}'' @ [CHR 0x0A])
       (?n\<lparr>buffer := ''3{"C":'',
           trace := [Emit (EvMessage (JObj [(''A'', JNum (Fin 1))])),
                     Emit (EvMessage (JObj [(''B'', JNum (Fin 2))]))]\<rparr>) =
     ?n\<lparr>buffer := [],
        trace := [Emit (EvMessage (JObj [(''A'', JNum (Fin 1))])),
                  Emit (EvMessage (JObj [(''B'', JNum (Fin 2))])),
                  Emit (EvMessage (JObj [(''C'', JNum (Fin 3))]))]\<rparr>\<close>
    by (subst conjunct1 [OF conjunct2 [OF handleData_partial_frame], rule_format])
       (simp_all add: c)
  show ?thesis
    unfolding first second using e by simp
qed

text \<open>
  C9. A line that cannot be decoded (fewer than two characters, or text that
  \<open>JSON.parse\<close> rejects) is dealt with inside \<open>processMessage\<close>: nothing is emitted, the
  socket is not touched, the state stays as it is, and the only trace is the error logged
  for the rejected text. The loop then goes on with what follows the line in the buffer.
  The line is what the buffer held followed by the new text up to the newline. No line
  at all, decodable or not, changes the connection state, the socket or the timer.
\<close>

theorem undecodable_frame_skipped:
  assumes "length (buffer c @ chunk) < 2 \<or> parse (drop 1 (buffer c @ chunk)) = None"
    and "CHR 0x0A \<notin> set (buffer c @ chunk)"
  shows "processMessage parse (buffer c @ chunk) c =
      (if length (buffer c @ chunk) < 2 then c
       else c\<lparr>trace := trace c @ [ConsoleError ''Error parsing message:'']\<rparr>) \<and>
    handleData parse (chunk @ CHR 0x0A # rest) c =
      handleData parse rest ((processMessage parse (buffer c @ chunk) c)\<lparr>buffer := []\<rparr>) \<and>
    (\<forall>l. state (processMessage parse l c) = state c \<and>
         socket (processMessage parse l c) = socket c \<and>
         reconnectTimer (processMessage parse l c) = reconnectTimer c)"
proof -
  let ?line = "buffer c @ chunk"
  let ?c0 = "c\<lparr>buffer := ?line @ CHR 0x0A # rest\<rparr>"
  have pm: "processMessage parse ?line c =
      (if length ?line < 2 then c
       else c\<lparr>trace := trace c @ [ConsoleError ''Error parsing message:'']\<rparr>)"
    using assms(1) by (auto simp: processMessage_def effect_def)
  have "handleData_loop parse ?c0 =
      handleData_loop parse
        (if ?line = [] then ?c0\<lparr>buffer := rest\<rparr>
         else processMessage parse ?line (?c0\<lparr>buffer := rest\<rparr>))"
    by (rule loop_line [OF assms(2)]) simp
  also have "(if ?line = [] then ?c0\<lparr>buffer := rest\<rparr>
         else processMessage parse ?line (?c0\<lparr>buffer := rest\<rparr>)) =
      (processMessage parse ?line c)\<lparr>buffer := rest\<rparr>"
    by (simp add: processMessage_buffer) (simp add: processMessage_def)
  finally have loop: "handleData parse (chunk @ CHR 0x0A # rest) c =
      handleData parse rest ((processMessage parse ?line c)\<lparr>buffer := []\<rparr>)"
    by (simp add: handleData_def)
  have same: "state (processMessage parse l c) = state c \<and>
      socket (processMessage parse l c) = socket c \<and>
      reconnectTimer (processMessage parse l c) = reconnectTimer c" for l
    using processMessage_extends [of c parse l] by (auto simp: extends_def)
  show ?thesis
    using pm loop same by blast
qed

subsection \<open>Receiving: dispatch\<close>

lemma truthy_field: "truthy (field v k) \<Longrightarrow> getProp v k = Inr (field v k)"
  by (cases "getProp v k") (auto simp: field_def)

lemma getProp_truthy: "truthy v \<Longrightarrow> getProp v k = Inr (field v k)"
  by (cases v) (auto simp: field_def split: option.splits)

lemma tag_is_truthy: "tag_is v tag \<Longrightarrow> truthy v"
  by (cases v) (auto simp: tag_is_def)

lemma effect_trace: "effect e c = c\<lparr>trace := trace c @ [e]\<rparr>"
  by (simp add: effect_def)

lemma emit_trace: "emit ev c = c\<lparr>trace := trace c @ [Emit ev]\<rparr>"
  by (simp add: emit_def effect_def)

text \<open>What the second \<open>if\<close> statement can add: nothing, or one compass event.\<close>

lemma parseAutopilotDisplay_cases:
  "\<exists>r es. parseAutopilotDisplay m c = (r, c\<lparr>trace := trace c @ es\<rparr>) \<and>
     (es = [] \<or> (r = None \<and> (\<exists>d. es = [Emit (EvCompassDisplay d)])))"
proof -
  have same: "c = c\<lparr>trace := trace c @ []\<rparr>" by simp
  show ?thesis
    unfolding parseAutopilotDisplay_def emit_trace
    by (auto split: sum.splits intro: same)
qed

lemma display_tail:
  "\<exists>es. (case parseAutopilotDisplay m c of
           (Some e, c1) \<Rightarrow> effect (ConsoleError ''Error parsing message:'') c1
         | (None, c1) \<Rightarrow> c1) = c\<lparr>trace := trace c @ es\<rparr> \<and> tail_ok es"
proof -
  obtain r es where p: "parseAutopilotDisplay m c = (r, c\<lparr>trace := trace c @ es\<rparr>)"
    and es: "es = [] \<or> (r = None \<and> (\<exists>d. es = [Emit (EvCompassDisplay d)]))"
    using parseAutopilotDisplay_cases by blast
  show ?thesis
  proof (cases r)
    case None
    then show ?thesis using p es by (auto simp: tail_ok_def)
  next
    case (Some e)
    then have "es = []" using es by simp
    then show ?thesis using p Some
      by (auto simp: tail_ok_def effect_trace
          intro!: exI [of _ "[ConsoleError ''Error parsing message:'']"])
  qed
qed

lemma processMessage_parsed:
  assumes "2 \<le> length line" and "parse (drop 1 line) = Some m"
  shows "processMessage parse line c =
     (case parseSpecialMessages m (emit (EvMessage m) c) of
        (Some e, c1) \<Rightarrow> effect (ConsoleError ''Error parsing message:'') c1
      | (None, c1) \<Rightarrow> c1)"
  using assms by (simp add: processMessage_def)

lemma appended_refl: "appended Q c c"
  unfolding appended_def by (rule exI [of _ "[]"]) simp

lemma appended_emit: "appended Q c c1 \<Longrightarrow> Q (Emit ev) \<Longrightarrow> appended Q c (emit ev c1)"
  by (auto simp: appended_def emit_trace)

lemma parsePlayerMessenger_appended:
  "appended messenger_event c (snd (parsePlayerMessenger m c))"
  unfolding parsePlayerMessenger_def Let_def
  by (auto split: sum.splits intro!: appended_emit appended_refl simp: messenger_event_def)

lemma parsePlayerMessenger_untagged:
  "\<not> tag_is (field m ''PlayerMessenger'') ''J'' \<Longrightarrow> snd (parsePlayerMessenger m c) = c"
  by (auto simp: parsePlayerMessenger_def field_def split: sum.splits)

lemma handleData_single:
  assumes "CHR 0x0A \<notin> set line" and "line \<noteq> []" and "buffer c = []"
  shows "handleData parse (line @ [CHR 0x0A]) c = processMessage parse line c"
proof -
  have c: "c\<lparr>buffer := []\<rparr> = c"
    using assms(3) by simp
  have "handleData_loop parse (c\<lparr>buffer := line @ CHR 0x0A # []\<rparr>) =
      handleData_loop parse (processMessage parse line c)"
    by (subst loop_line [OF assms(1), where rest = "[]"]) (simp_all add: assms(2) c)
  also have "\<dots> = processMessage parse line c"
    by (rule loop_done) (simp add: buffer_processMessage assms(3))
  finally show ?thesis
    by (simp add: handleData_def assms(3))
qed

lemma trace_append_same: "c\<lparr>trace := trace c @ es\<rparr> = c \<Longrightarrow> es = []"
proof -
  assume "c\<lparr>trace := trace c @ es\<rparr> = c"
  then have "trace (c\<lparr>trace := trace c @ es\<rparr>) = trace c" by simp
  then show "es = []" by simp
qed

lemma tail_ok_no_messenger: "tail_ok es \<Longrightarrow> \<not> list_ex messenger_event es"
  by (auto simp: tail_ok_def messenger_event_def)

text \<open>
  C10. Whatever a decoded frame holds, the boat-properties and game-notification events
  are emitted only when the envelope under \<open>PlayerMessenger\<close> has the tag \<open>'J'\<close>. With any
  other tag (or no such envelope) the frame yields the generic message event and, after
  it, at most the compass event of an \<open>AP_display\<close> entry or the error logged for a
  message that is \<open>null\<close>.
\<close>

theorem specialized_events_need_tag_J:
  assumes "2 \<le> length line" and "parse (drop 1 line) = Some m"
  shows "\<exists>es. processMessage parse line c = c\<lparr>trace := trace c @ Emit (EvMessage m) # es\<rparr> \<and>
     (list_ex messenger_event es \<longrightarrow> tag_is (field m ''PlayerMessenger'') ''J'') \<and>
     (\<not> tag_is (field m ''PlayerMessenger'') ''J'' \<longrightarrow> tail_ok es)"
proof -
  let ?c0 = "emit (EvMessage m) c"
  obtain es1 where s: "snd (parsePlayerMessenger m ?c0) = ?c0\<lparr>trace := trace ?c0 @ es1\<rparr>"
    and q: "list_all messenger_event es1"
    using parsePlayerMessenger_appended [of ?c0 m] by (auto simp: appended_def)
  have untagged: "es1 = []" if "\<not> tag_is (field m ''PlayerMessenger'') ''J''"
    using parsePlayerMessenger_untagged [OF that, of ?c0] s trace_append_same [of ?c0 es1]
    by simp
  have c0: "?c0\<lparr>trace := trace ?c0 @ es\<rparr> = c\<lparr>trace := trace c @ Emit (EvMessage m) # es\<rparr>" for es
    by (simp add: emit_trace)
  obtain es where pm: "processMessage parse line c = ?c0\<lparr>trace := trace ?c0 @ es1 @ es\<rparr>"
    and t: "tail_ok es"
  proof (cases "fst (parsePlayerMessenger m ?c0)")
    case None
    then have "parsePlayerMessenger m ?c0 = (None, ?c0\<lparr>trace := trace ?c0 @ es1\<rparr>)"
      using s by (metis prod.collapse)
    then have "processMessage parse line c =
        (case parseAutopilotDisplay m (?c0\<lparr>trace := trace ?c0 @ es1\<rparr>) of
           (Some e, c1) \<Rightarrow> effect (ConsoleError ''Error parsing message:'') c1
         | (None, c1) \<Rightarrow> c1)"
      by (simp add: processMessage_parsed [of line parse m c, OF assms] parseSpecialMessages_def)
    then show ?thesis
      using display_tail [of m "?c0\<lparr>trace := trace ?c0 @ es1\<rparr>"] that by auto
  next
    case (Some e)
    then have "parsePlayerMessenger m ?c0 = (Some e, ?c0\<lparr>trace := trace ?c0 @ es1\<rparr>)"
      using s by (metis prod.collapse)
    then have "processMessage parse line c =
        ?c0\<lparr>trace := trace ?c0 @ es1 @ [ConsoleError ''Error parsing message:'']\<rparr>"
      by (simp add: processMessage_parsed [of line parse m c, OF assms] parseSpecialMessages_def effect_trace)
    then show ?thesis
      using that [of "[ConsoleError ''Error parsing message:'']"] by (simp add: tail_ok_def)
  qed
  have "processMessage parse line c = c\<lparr>trace := trace c @ Emit (EvMessage m) # (es1 @ es)\<rparr>"
    using pm c0 [of "es1 @ es"] by simp
  moreover have "tag_is (field m ''PlayerMessenger'') ''J''" if "list_ex messenger_event (es1 @ es)"
    using that tail_ok_no_messenger [OF t] untagged by (cases "es1 = []") auto
  moreover have "tail_ok (es1 @ es)" if "\<not> tag_is (field m ''PlayerMessenger'') ''J''"
    using untagged [OF that] t by simp
  ultimately show ?thesis by blast
qed

lemma example_frames:
  \<open>example_parse (drop 1 ''1{"PlayerMessenger":{"t":"J","v":{"Props":{"EngineCount":1},"Msg":{"Type":"Game","Noti":"Spawned"}}}}'') =
     Some (example_messenger ''J'')\<close>
  \<open>example_parse (drop 1 ''1{"PlayerMessenger":{"t":"S","v":{"Props":{"EngineCount":1},"Msg":{"Type":"Game","Noti":"Spawned"}}}}'') =
     Some (example_messenger ''S'')\<close>
  \<open>example_parse (drop 1 ''1{"AP_display":{"t":"S","v":270}}'') =
     Some (JObj [(''AP_display'', JObj [(''t'', JStr ''S''), (''v'', JNum (Fin 270))])])\<close>
  by (simp_all add: example_parse_def)

lemma processMessage_example_S:
  \<open>processMessage example_parse
     ''1{"PlayerMessenger":{"t":"S","v":{"Props":{"EngineCount":1},"Msg":{"Type":"Game","Noti":"Spawned"}}}}'' c =
   c\<lparr>trace := trace c @ [Emit (EvMessage (example_messenger ''S''))]\<rparr>\<close>
  unfolding processMessage_def Let_def example_frames
  by (simp add: parseSpecialMessages_def parsePlayerMessenger_def parseAutopilotDisplay_def
      tag_is_def example_messenger_def emit_trace)

lemma processMessage_example_J:
  \<open>processMessage example_parse
     ''1{"PlayerMessenger":{"t":"J","v":{"Props":{"EngineCount":1},"Msg":{"Type":"Game","Noti":"Spawned"}}}}'' c =
   c\<lparr>trace := trace c @
     [Emit (EvMessage (example_messenger ''J'')),
      Emit (EvBoatProperties (JObj [(''EngineCount'', JNum (Fin 1))])),
      Emit (EvGameNotification (JObj [(''Type'', JStr ''Game''), (''Noti'', JStr ''Spawned'')]))]\<rparr>\<close>
  unfolding processMessage_def Let_def example_frames
  by (simp add: parseSpecialMessages_def parsePlayerMessenger_def parseAutopilotDisplay_def
      tag_is_def example_messenger_def emit_trace)

lemma processMessage_example_display:
  \<open>processMessage example_parse ''1{"AP_display":{"t":"S","v":270}}'' c =
   c\<lparr>trace := trace c @
     [Emit (EvMessage (JObj [(''AP_display'', JObj [(''t'', JStr ''S''), (''v'', JNum (Fin 270))])])),
      Emit (EvCompassDisplay (JNum (Fin 270)))]\<rparr>\<close>
  unfolding processMessage_def Let_def example_frames
  by (simp add: parseSpecialMessages_def parsePlayerMessenger_def parseAutopilotDisplay_def
      tag_is_def emit_trace)

theorem specialized_events_need_tag_J_witness:
  \<open>2 \<le> length ''1{"PlayerMessenger":{"t":"S","v":{"Props":{"EngineCount":1},"Msg":{"Type":"Game","Noti":"Spawned"}}}}'' \<and>
   example_parse (drop 1 ''1{"PlayerMessenger":{"t":"S","v":{"Props":{"EngineCount":1},"Msg":{"Type":"Game","Noti":"Spawned"}}}}'') =
     Some (example_messenger ''S'') \<and>
   \<not> tag_is (field (example_messenger ''S'') ''PlayerMessenger'') ''J'' \<and>
   (\<exists>es. processMessage example_parse
       ''1{"PlayerMessenger":{"t":"S","v":{"Props":{"EngineCount":1},"Msg":{"Type":"Game","Noti":"Spawned"}}}}''
       (new_client ''localhost'' (Fin 2612) None None None) =
     (new_client ''localhost'' (Fin 2612) None None None)
       \<lparr>trace := trace (new_client ''localhost'' (Fin 2612) None None None) @
          Emit (EvMessage (example_messenger ''S'')) # es\<rparr> \<and>
     tail_ok es \<and> \<not> list_ex messenger_event es) \<and>
   trace (processMessage example_parse
       ''1{"PlayerMessenger":{"t":"S","v":{"Props":{"EngineCount":1},"Msg":{"Type":"Game","Noti":"Spawned"}}}}''
       (new_client ''localhost'' (Fin 2612) None None None)) =
     [Emit (EvMessage (example_messenger ''S''))]\<close>
proof -
  let ?l = \<open>''1{"PlayerMessenger":{"t":"S","v":{"Props":{"EngineCount":1},"Msg":{"Type":"Game","Noti":"Spawned"}}}}''\<close>
  let ?n = "new_client ''localhost'' (Fin 2612) None None None"
  have h1: "2 \<le> length ?l" by simp
  have h2: "example_parse (drop 1 ?l) = Some (example_messenger ''S'')"
    by (rule example_frames)
  have h3: "\<not> tag_is (field (example_messenger ''S'') ''PlayerMessenger'') ''J''"
    by (simp add: example_messenger_def field_def tag_is_def)
  have t: "trace (processMessage example_parse ?l ?n) = [Emit (EvMessage (example_messenger ''S''))]"
    by (simp add: processMessage_example_S new_client_def)
  show ?thesis
    using specialized_events_need_tag_J [where line = ?l and parse = example_parse and c = ?n, OF h1 h2] h1 h2 h3 t tail_ok_no_messenger
    by blast
qed

text \<open>
  C7, as stated, fails: a \<open>Props\<close> and a \<open>Msg\<close> under \<open>PlayerMessenger\<close> yield no
  specialized event when the envelope's tag is not \<open>'J'\<close>; only the generic message
  event is emitted.
\<close>

theorem messenger_tag_S_only_message:
  \<open>truthy (field (field (field (example_messenger ''S'') ''PlayerMessenger'') ''v'') ''Props'') \<and>
   truthy (field (field (field (example_messenger ''S'') ''PlayerMessenger'') ''v'') ''Msg'') \<and>
   example_parse (drop 1 ''1{"PlayerMessenger":{"t":"S","v":{"Props":{"EngineCount":1},"Msg":{"Type":"Game","Noti":"Spawned"}}}}'') =
     Some (example_messenger ''S'') \<and>
   trace (processMessage example_parse
       ''1{"PlayerMessenger":{"t":"S","v":{"Props":{"EngineCount":1},"Msg":{"Type":"Game","Noti":"Spawned"}}}}''
       (new_client ''localhost'' (Fin 2612) None None None)) =
     [Emit (EvMessage (example_messenger ''S''))]\<close>
proof -
  have "truthy (field (field (field (example_messenger ''S'') ''PlayerMessenger'') ''v'') ''Props'')"
    and "truthy (field (field (field (example_messenger ''S'') ''PlayerMessenger'') ''v'') ''Msg'')"
    by (simp_all add: example_messenger_def field_def)
  moreover have \<open>trace (processMessage example_parse
       ''1{"PlayerMessenger":{"t":"S","v":{"Props":{"EngineCount":1},"Msg":{"Type":"Game","Noti":"Spawned"}}}}''
       (new_client ''localhost'' (Fin 2612) None None None)) =
     [Emit (EvMessage (example_messenger ''S''))]\<close>
    by (simp add: processMessage_example_S new_client_def)
  ultimately show ?thesis
    using example_frames(2) by blast
qed

text \<open>
  C7, amended. For a decoded frame whose envelope under \<open>PlayerMessenger\<close> has the tag
  \<open>'J'\<close> and whose value holds a truthy \<open>Props\<close> and a truthy \<open>Msg\<close> with a \<open>Type\<close> and a
  \<open>Noti\<close> that convert to strings, the events are emitted in this order: the generic
  message event, the boat-properties event, the game-notification event, each once.
  After them comes at most the compass event of an \<open>AP_display\<close> entry.
\<close>

theorem messenger_dispatch_order:
  assumes "2 \<le> length line" and "parse (drop 1 line) = Some m"
    and "tag_is (field m ''PlayerMessenger'') ''J''"
    and "truthy (field (field (field m ''PlayerMessenger'') ''v'') ''Props'')"
    and "truthy (field (field (field m ''PlayerMessenger'') ''v'') ''Msg'')"
    and "\<not> toString_throws
           (field (field (field (field m ''PlayerMessenger'') ''v'') ''Msg'') ''Type'')"
    and "\<not> toString_throws
           (field (field (field (field m ''PlayerMessenger'') ''v'') ''Msg'') ''Noti'')"
  shows "\<exists>es. processMessage parse line c =
      c\<lparr>trace := trace c @
        [Emit (EvMessage m),
         Emit (EvBoatProperties (field (field (field m ''PlayerMessenger'') ''v'') ''Props'')),
         Emit (EvGameNotification (field (field (field m ''PlayerMessenger'') ''v'') ''Msg''))]
        @ es\<rparr> \<and> tail_ok es"
proof -
  let ?pm = "field m ''PlayerMessenger''"
  let ?ms = "field ?pm ''v''"
  let ?props = "field ?ms ''Props''"
  let ?msg = "field ?ms ''Msg''"
  let ?c0 = "emit (EvMessage m) c"
  let ?c2 = "emit (EvGameNotification ?msg) (emit (EvBoatProperties ?props) ?c0)"
  have pm: "truthy ?pm" by (rule tag_is_truthy [OF assms(3)])
  have g1: "getProp m ''PlayerMessenger'' = Inr ?pm" by (rule truthy_field [OF pm])
  have g2: "getProp ?pm ''v'' = Inr ?ms" by (rule getProp_truthy [OF pm])
  have g3: "getProp ?ms ''Props'' = Inr ?props" by (rule truthy_field [OF assms(4)])
  have g4: "getProp ?ms ''Msg'' = Inr ?msg" by (rule truthy_field [OF assms(5)])
  have g5: "getProp ?msg ''Type'' = Inr (field ?msg ''Type'')"
    and g6: "getProp ?msg ''Noti'' = Inr (field ?msg ''Noti'')"
    by (rule getProp_truthy [OF assms(5)])+
  have "parsePlayerMessenger m ?c0 = (None, ?c2)"
    unfolding parsePlayerMessenger_def Let_def g1
    using pm assms(3-7) by (simp add: g2 g3 g4 g5 g6)
  then have "processMessage parse line c =
      (case parseAutopilotDisplay m ?c2 of
         (Some e, c1) \<Rightarrow> effect (ConsoleError ''Error parsing message:'') c1
       | (None, c1) \<Rightarrow> c1)"
    by (simp add: processMessage_parsed [of line parse m c, OF assms(1,2)] parseSpecialMessages_def)
  then obtain es where "processMessage parse line c = ?c2\<lparr>trace := trace ?c2 @ es\<rparr>"
    and "tail_ok es"
    using display_tail [of m ?c2] by auto
  then show ?thesis
    by (auto simp: emit_trace)
qed

theorem messenger_dispatch_order_witness:
  \<open>tag_is (field (example_messenger ''J'') ''PlayerMessenger'') ''J'' \<and>
   truthy (field (field (field (example_messenger ''J'') ''PlayerMessenger'') ''v'') ''Props'') \<and>
   truthy (field (field (field (example_messenger ''J'') ''PlayerMessenger'') ''v'') ''Msg'') \<and>
   (\<exists>es. processMessage example_parse
       ''1{"PlayerMessenger":{"t":"J","v":{"Props":{"EngineCount":1},"Msg":{"Type":"Game","Noti":"Spawned"}}}}''
       (new_client ''localhost'' (Fin 2612) None None None) =
     (new_client ''localhost'' (Fin 2612) None None None)
       \<lparr>trace := trace (new_client ''localhost'' (Fin 2612) None None None) @
          [Emit (EvMessage (example_messenger ''J'')),
           Emit (EvBoatProperties
             (field (field (field (example_messenger ''J'') ''PlayerMessenger'') ''v'') ''Props'')),
           Emit (EvGameNotification
             (field (field (field (example_messenger ''J'') ''PlayerMessenger'') ''v'') ''Msg''))]
          @ es\<rparr> \<and> tail_ok es) \<and>
   trace (processMessage example_parse
       ''1{"PlayerMessenger":{"t":"J","v":{"Props":{"EngineCount":1},"Msg":{"Type":"Game","Noti":"Spawned"}}}}''
       (new_client ''localhost'' (Fin 2612) None None None)) =
     [Emit (EvMessage (example_messenger ''J'')),
      Emit (EvBoatProperties (JObj [(''EngineCount'', JNum (Fin 1))])),
      Emit (EvGameNotification (JObj [(''Type'', JStr ''Game''), (''Noti'', JStr ''Spawned'')]))]\<close>
proof -
  let ?l = \<open>''1{"PlayerMessenger":{"t":"J","v":{"Props":{"EngineCount":1},"Msg":{"Type":"Game","Noti":"Spawned"}}}}''\<close>
  let ?n = "new_client ''localhost'' (Fin 2612) None None None"
  let ?m = "example_messenger ''J''"
  have h1: "2 \<le> length ?l" by simp
  have h2: "example_parse (drop 1 ?l) = Some ?m" by (rule example_frames)
  have h3: "tag_is (field ?m ''PlayerMessenger'') ''J''"
    by (simp add: example_messenger_def field_def tag_is_def)
  have h4: "truthy (field (field (field ?m ''PlayerMessenger'') ''v'') ''Props'')"
    and h5: "truthy (field (field (field ?m ''PlayerMessenger'') ''v'') ''Msg'')"
    by (simp_all add: example_messenger_def field_def tag_is_def)
  have h6: "\<not> toString_throws (field (field (field (field ?m ''PlayerMessenger'') ''v'') ''Msg'') ''Type'')"
    and h7: "\<not> toString_throws (field (field (field (field ?m ''PlayerMessenger'') ''v'') ''Msg'') ''Noti'')"
    by (simp_all add: example_messenger_def field_def tag_is_def)
  have t: "trace (processMessage example_parse ?l ?n) =
     [Emit (EvMessage ?m),
      Emit (EvBoatProperties (JObj [(''EngineCount'', JNum (Fin 1))])),
      Emit (EvGameNotification (JObj [(''Type'', JStr ''Game''), (''Noti'', JStr ''Spawned'')]))]"
    by (simp add: processMessage_example_J new_client_def)
  show ?thesis
    using messenger_dispatch_order [where line = ?l and parse = example_parse and c = ?n, OF h1 h2 h3 h4 h5 h6 h7] h3 h4 h5 t
    by blast
qed






theorem undecodable_frame_skipped_witness:
  \<open>example_parse (drop 1 ''1{oops'') = None \<and> CHR 0x0A \<notin> set ''1{oops'' \<and>
   buffer (on_connect (connect (new_client ''localhost'' (Fin 2612) None None None))) = [] \<and>
   handleData example_parse (''1{oops'' @ CHR 0x0A # ''1{"A":1}'' @ [CHR 0x0A])
       (on_connect (connect (new_client ''localhost'' (Fin 2612) None None None))) =
     (on_connect (connect (new_client ''localhost'' (Fin 2612) None None None)))
       \<lparr>trace := [SocketConnect (Fin 2612) ''localhost'', Emit EvConnected,
                  ConsoleError ''Error parsing message:'',
                  Emit (EvMessage (JObj [(''A'', JNum (Fin 1))]))]\<rparr> \<and>
   state (handleData example_parse (''1{oops'' @ CHR 0x0A # ''1{"A":1}'' @ [CHR 0x0A])
       (on_connect (connect (new_client ''localhost'' (Fin 2612) None None None)))) = Connected \<and>
   length ''x'' < 2 \<and>
   handleData example_parse (''x'' @ CHR 0x0A # ''1{"A":1}'' @ [CHR 0x0A])
       (on_connect (connect (new_client ''localhost'' (Fin 2612) None None None))) =
     (on_connect (connect (new_client ''localhost'' (Fin 2612) None None None)))
       \<lparr>trace := [SocketConnect (Fin 2612) ''localhost'', Emit EvConnected,
                  Emit (EvMessage (JObj [(''A'', JNum (Fin 1))]))]\<rparr>\<close>
proof -
  let ?c = "on_connect (connect (new_client ''localhost'' (Fin 2612) None None None))"
  let ?A = "JObj [(''A'', JNum (Fin 1))]"
  have b: "buffer ?c = []" and st: "state ?c = Connected"
    and tr: "trace ?c = [SocketConnect (Fin 2612) ''localhost'', Emit EvConnected]"
    by (simp_all add: connected_client)
  have bad: "example_parse (drop 1 ''1{oops'') = None" and nl: "CHR 0x0A \<notin> set ''1{oops''"
    by (simp_all add: example_parse_def)
  have short: "length ''x'' < 2" and nlx: "CHR 0x0A \<notin> set ''x''"
    by simp_all
  have good: \<open>handleData example_parse (''1{"A":1}'' @ [CHR 0x0A]) c =
      c\<lparr>trace := trace c @ [Emit (EvMessage ?A)]\<rparr>\<close> if "buffer c = []" for c
  proof -
    have \<open>handleData example_parse (''1{"A":1}'' @ [CHR 0x0A]) c =
        processMessage example_parse ''1{"A":1}'' c\<close>
      by (rule handleData_single) (simp_all add: that)
    also have \<open>\<dots> = c\<lparr>trace := trace c @ [Emit (EvMessage ?A)]\<rparr>\<close>
      by (rule processMessage_plain) (simp_all add: example_parse_def)
    finally show ?thesis .
  qed
  have bad': "length (buffer ?c @ ''1{oops'') < 2 \<or>
      example_parse (drop 1 (buffer ?c @ ''1{oops'')) = None"
    and nl': "CHR 0x0A \<notin> set (buffer ?c @ ''1{oops'')"
    using bad by (simp_all add: b)
  have short': "length (buffer ?c @ ''x'') < 2 \<or> example_parse (drop 1 (buffer ?c @ ''x'')) = None"
    and nlx': "CHR 0x0A \<notin> set (buffer ?c @ ''x'')"
    by (simp_all add: b)
  have p1: "processMessage example_parse ''1{oops'' ?c =
      ?c\<lparr>trace := trace ?c @ [ConsoleError ''Error parsing message:'']\<rparr>"
    and l1: \<open>handleData example_parse (''1{oops'' @ CHR 0x0A # ''1{"A":1}'' @ [CHR 0x0A]) ?c =
      handleData example_parse (''1{"A":1}'' @ [CHR 0x0A])
        ((processMessage example_parse ''1{oops'' ?c)\<lparr>buffer := []\<rparr>)\<close>
    using undecodable_frame_skipped [where chunk = "''1{oops''" and parse = example_parse
        and c = ?c and rest = \<open>''1{"A":1}'' @ [CHR 0x0A]\<close>, OF bad' nl']
    by (simp_all add: b)
  have p2: "processMessage example_parse ''x'' ?c = ?c"
    and l2: \<open>handleData example_parse (''x'' @ CHR 0x0A # ''1{"A":1}'' @ [CHR 0x0A]) ?c =
      handleData example_parse (''1{"A":1}'' @ [CHR 0x0A])
        ((processMessage example_parse ''x'' ?c)\<lparr>buffer := []\<rparr>)\<close>
    using undecodable_frame_skipped [where chunk = "''x''" and parse = example_parse
        and c = ?c and rest = \<open>''1{"A":1}'' @ [CHR 0x0A]\<close>, OF short' nlx']
    by (simp_all add: b)
  have r1: \<open>handleData example_parse (''1{oops'' @ CHR 0x0A # ''1{"A":1}'' @ [CHR 0x0A]) ?c =
      ?c\<lparr>trace := [SocketConnect (Fin 2612) ''localhost'', Emit EvConnected,
                  ConsoleError ''Error parsing message:'', Emit (EvMessage ?A)]\<rparr>\<close>
    unfolding l1 p1 by (subst good) (simp_all add: b tr)
  have r2: \<open>handleData example_parse (''x'' @ CHR 0x0A # ''1{"A":1}'' @ [CHR 0x0A]) ?c =
      ?c\<lparr>trace := [SocketConnect (Fin 2612) ''localhost'', Emit EvConnected, Emit (EvMessage ?A)]\<rparr>\<close>
    unfolding l2 p2 by (subst good) (simp_all add: b tr)
  show ?thesis
    unfolding r1 r2 using bad nl b st short by simp
qed

end
